theory Spec2Isabelle
  imports Complex_Main "HOL-Library.AList" "HOL-Library.Char_ord" "HOL-Library.List_Lexorder"
    "HOL-Library.Product_Lexorder"
begin

section \<open>Data model\<close>

text \<open>
  The script \<^verbatim>\<open>preprocessing/automate_Rifky-Maulana.py\<close> works on pandas tables.
  A cell of a table read by \<^verbatim>\<open>pd.read_csv\<close> is a missing value (NaN), a text, a
  float or an integer. A float cell is a finite number (\<open>Float\<close>, with the number
  that the float64 value denotes) or an infinity (\<open>Infinity True\<close> is \<open>+inf\<close>); the two
  zeros of float64 are one value here. Texts are byte strings; Python compares strings by
  code point, and the byte order of UTF-8 agrees with the code point order.
\<close>

datatype cell = Missing | Text string | Float real | Infinity bool | Integer int

type_synonym series = "cell list"

text \<open>
  A DataFrame is the ordered list of its named columns. In a table that pandas builds
  the names are distinct and every column has one cell per row (\<open>wf\<close>).
\<close>

type_synonym dataframe = "(string \<times> series) list"

definition columns :: "dataframe \<Rightarrow> string list" where
  "columns d = map fst d"

definition nrows :: "dataframe \<Rightarrow> nat" where
  "nrows d = (case d of [] \<Rightarrow> 0 | c # _ \<Rightarrow> length (snd c))"

definition shape :: "dataframe \<Rightarrow> nat \<times> nat" where
  "shape d = (nrows d, length d)"

definition wf :: "dataframe \<Rightarrow> bool" where
  "wf d \<longleftrightarrow> distinct (columns d) \<and> (\<forall>c \<in> set d. length (snd c) = nrows d)"

text \<open>The exceptions that the library calls of the script raise.\<close>

datatype error = KeyError string | TypeError | ValueError

section \<open>Library primitives used by the script\<close>

subsection \<open>pandas: missing values\<close>

text \<open>\<^verbatim>\<open>df.isnull().sum().sum()\<close>: the number of missing cells of the table.\<close>

definition isnull_sum :: "dataframe \<Rightarrow> nat" where
  "isnull_sum d = sum_list (map (\<lambda>c. length (filter (\<lambda>x. x = Missing) (snd c))) d)"

text \<open>Row \<open>i\<close> of the table holds a missing cell in some column.\<close>

definition row_has_missing :: "dataframe \<Rightarrow> nat \<Rightarrow> bool" where
  "row_has_missing d i \<longleftrightarrow> (\<exists>c \<in> set d. snd c ! i = Missing)"

text \<open>
  \<^verbatim>\<open>df.dropna()\<close> with its defaults (\<^verbatim>\<open>axis=0, how='any'\<close>): a new table that keeps,
  in order, the rows without a missing cell.
\<close>

definition kept_rows :: "dataframe \<Rightarrow> nat list" where
  "kept_rows d = filter (\<lambda>i. \<not> row_has_missing d i) [0..<nrows d]"

definition dropna_frame :: "dataframe \<Rightarrow> dataframe" where
  "dropna_frame d = map (\<lambda>c. (fst c, map (\<lambda>i. snd c ! i) (kept_rows d))) d"

subsection \<open>pandas: column access\<close>

text \<open>
  \<^verbatim>\<open>df[name] = values\<close> replaces the column of that name where it stands, or appends
  a new column at the end when the table has no such column.
\<close>

definition setitem_frame :: "string \<Rightarrow> series \<Rightarrow> dataframe \<Rightarrow> dataframe" where
  "setitem_frame name c d = AList.update name c d"

definition getitem_frame :: "dataframe \<Rightarrow> string \<Rightarrow> error + series" where
  "getitem_frame d name = (case map_of d name of None \<Rightarrow> Inl (KeyError name) | Some c \<Rightarrow> Inr c)"

subsection \<open>scikit-learn: LabelEncoder\<close>

text \<open>
  \<^verbatim>\<open>LabelEncoder().fit_transform(y)\<close> computes the classes of \<open>y\<close>, its distinct
  values in ascending order (\<^verbatim>\<open>np.unique\<close>, or \<^verbatim>\<open>sorted(set(y))\<close> for texts),
  and replaces each value by its position in the classes.
\<close>

fun index_of :: "'a \<Rightarrow> 'a list \<Rightarrow> nat" where
  "index_of v [] = 0"
| "index_of v (u # us) = (if v = u then 0 else Suc (index_of v us))"

definition label_classes :: "'a::linorder list \<Rightarrow> 'a list" where
  "label_classes ys = sort (remdups ys)"

definition fit_transform :: "'a::linorder list \<Rightarrow> nat list" where
  "fit_transform ys = map (\<lambda>v. index_of v (label_classes ys)) ys"

fun text_of :: "cell \<Rightarrow> string option" where
  "text_of (Text s) = Some s"
| "text_of _ = None"

text \<open>
  The place of a number in the order of numbers (pairs are ordered lexicographically):
  the infinities are below and above every finite number, and NaN, the missing value, is
  the last of the classes of a column of numbers.
\<close>

fun number_of :: "cell \<Rightarrow> (int \<times> real) option" where
  "number_of (Float r) = Some (0, r)"
| "number_of (Integer i) = Some (0, of_int i)"
| "number_of (Infinity b) = Some (if b then 1 else - 1, 0)"
| "number_of Missing = Some (2, 0)"
| "number_of (Text s) = None"

text \<open>
  The encoder takes a column of texts or a column of numbers; texts and numbers (or
  missing values) in one column cannot be ordered and raise a TypeError. The script
  encodes after \<^verbatim>\<open>dropna\<close>, so no cell is missing there. The codes are stored as integer
  cells.
\<close>

definition label_encoder_fit_transform :: "series \<Rightarrow> error + series" where
  "label_encoder_fit_transform c =
     (case those (map text_of c) of
        Some ss \<Rightarrow> Inr (map (\<lambda>n. Integer (int n)) (fit_transform ss))
      | None \<Rightarrow>
          (case those (map number_of c) of
             Some rs \<Rightarrow> Inr (map (\<lambda>n. Integer (int n)) (fit_transform rs))
           | None \<Rightarrow> Inl TypeError))"

subsection \<open>scikit-learn: StandardScaler\<close>

text \<open>
  The scaler works on arrays of float64. A float64 value is a finite number, an infinity
  or NaN.
\<close>

datatype float64 = Finite real | PosInf | NegInf | NaN

fun is_infinite :: "float64 \<Rightarrow> bool" where
  "is_infinite PosInf = True"
| "is_infinite NegInf = True"
| "is_infinite _ = False"

text \<open>A float64 value as a cell of a table; NaN is the missing value of pandas.\<close>

fun cell_of_float64 :: "float64 \<Rightarrow> cell" where
  "cell_of_float64 (Finite r) = Float r"
| "cell_of_float64 PosInf = Infinity True"
| "cell_of_float64 NegInf = Infinity False"
| "cell_of_float64 NaN = Missing"

text \<open>
  The arithmetic of float64 rounds and overflows, and the model does not define it: the
  operations that the scaler applies are parameters.

  \<^item> \<open>float_of_int\<close>: the conversion of an integer to float64 (it rounds above \<open>2^53\<close>);
  \<^item> \<open>float_of_text\<close>: Python's \<^verbatim>\<open>float\<close> on a text, \<open>None\<close> where it raises;
  \<^item> \<open>column_mean\<close>: the attribute \<^verbatim>\<open>mean_\<close> that \<^verbatim>\<open>fit\<close> computes for a column;
  \<^item> \<open>column_std\<close>: \<^verbatim>\<open>np.sqrt(var_)\<close>, the square root of the population variance
    (\<^verbatim>\<open>ddof=0\<close>) that \<^verbatim>\<open>fit\<close> computes for a column;
  \<^item> \<open>constant_feature\<close>: the test of \<^verbatim>\<open>fit\<close> for a column whose computed variance is
    within rounding error of zero (in the versions of the library that have it);
  \<^item> \<open>float_sub\<close> and \<open>float_div\<close>: subtraction and division of float64.
\<close>

record float_ops =
  float_of_int :: "int \<Rightarrow> float64"
  float_of_text :: "string \<Rightarrow> float64 option"
  column_mean :: "float64 list \<Rightarrow> float64"
  column_std :: "float64 list \<Rightarrow> float64"
  constant_feature :: "float64 list \<Rightarrow> bool"
  float_sub :: "float64 \<Rightarrow> float64 \<Rightarrow> float64"
  float_div :: "float64 \<Rightarrow> float64 \<Rightarrow> float64"

text \<open>
  The divisor of a column is the attribute \<^verbatim>\<open>scale_\<close>: the standard deviation, replaced
  by 1 where it is zero or the column was found constant ("if a variance is zero, we can't
  achieve unit variance, and the data is left as-is, giving a scaling factor of 1").
\<close>

definition scale :: "float_ops \<Rightarrow> float64 list \<Rightarrow> float64" where
  "scale A xs =
     (if column_std A xs = Finite 0 \<or> constant_feature A xs then Finite 1
      else column_std A xs)"

text \<open>\<^verbatim>\<open>transform\<close>: the mean is subtracted, then the result is divided by \<^verbatim>\<open>scale_\<close>.\<close>

definition standardize :: "float_ops \<Rightarrow> float64 list \<Rightarrow> float64 list" where
  "standardize A xs =
     map (\<lambda>x. float_div A (float_sub A x (column_mean A xs)) (scale A xs)) xs"

text \<open>
  The scaler converts its input to float64 first; a missing cell is NaN, which the
  scaler lets through.
\<close>

fun as_float :: "float_ops \<Rightarrow> cell \<Rightarrow> float64 option" where
  "as_float A (Float r) = Some (Finite r)"
| "as_float A (Infinity b) = Some (if b then PosInf else NegInf)"
| "as_float A (Integer i) = Some (float_of_int A i)"
| "as_float A (Text s) = float_of_text A s"
| "as_float A Missing = Some NaN"

text \<open>
  A cell that is no number, a table without a row and an infinite value raise a
  ValueError.
\<close>

definition standard_scaler_fit_transform ::
    "float_ops \<Rightarrow> series list \<Rightarrow> error + series list" where
  "standard_scaler_fit_transform A cs =
     (case those (map (\<lambda>c. those (map (as_float A) c)) cs) of
        None \<Rightarrow> Inl ValueError
      | Some xss \<Rightarrow>
          if (case xss of [] \<Rightarrow> True | xs # _ \<Rightarrow> xs = []) \<or> list_ex (list_ex is_infinite) xss
          then Inl ValueError
          else Inr (map (\<lambda>xs. map cell_of_float64 (standardize A xs)) xss))"

section \<open>The state of a run\<close>

text \<open>
  One constructor for each \<^verbatim>\<open>print\<close> call of the script, holding the values that its
  format string interpolates.
\<close>

datatype msg =
    Msg_loaded "nat \<times> nat"
  | Msg_not_found string
  | Msg_load_error string
  | Msg_missing_before nat
  | Msg_missing_after nat
  | Msg_final_shape "nat \<times> nat"
  | Msg_feature_shape "nat \<times> nat"
  | Msg_target_distribution series
  | Msg_saved string
  | Msg_save_error string
  | Msg_raw_not_found
  | Msg_start
  | Msg_step_load
  | Msg_step_preprocess
  | Msg_step_save
  | Msg_completed
  | Msg_available string
  | Msg_features_shape "nat \<times> nat"
  | Msg_target_shape nat

text \<open>
  The world of a run: the files by path, the DataFrame objects by reference (a
  reference is the position of the object in the heap) and the lines printed so far.
  The type \<open>'f\<close> is what a path holds (the text of a file, a directory, ...).
\<close>

record 'f world =
  files :: "string \<rightharpoonup> 'f"
  heap :: "dataframe list"
  stdout :: "msg list"

text \<open>
  The environment of the script: \<^verbatim>\<open>pd.read_csv\<close> on what a path holds (\<open>Inl\<close> the
  message of the exception it raises), the text \<^verbatim>\<open>to_csv\<close> writes, the exception that
  writing to a path raises if any, and the float64 operations of the scaler.
\<close>

record 'f env =
  read_csv :: "'f \<Rightarrow> string + dataframe"
  to_csv :: "dataframe \<Rightarrow> 'f"
  write_error :: "string \<Rightarrow> string option"
  floats :: float_ops

text \<open>A statement runs in a world and returns a value or raises, in a new world.\<close>

type_synonym ('f, 'a) prog = "'f world \<Rightarrow> (error + 'a) \<times> 'f world"

definition ret :: "'a \<Rightarrow> ('f, 'a) prog" where
  "ret x = (\<lambda>w. (Inr x, w))"

definition lift :: "error + 'a \<Rightarrow> ('f, 'a) prog" where
  "lift r = (\<lambda>w. (r, w))"

definition andthen :: "('f, 'a) prog \<Rightarrow> ('a \<Rightarrow> ('f, 'b) prog) \<Rightarrow> ('f, 'b) prog" where
  "andthen m k = (\<lambda>w. case m w of (Inl e, w') \<Rightarrow> (Inl e, w') | (Inr x, w') \<Rightarrow> k x w')"

definition print :: "msg \<Rightarrow> ('f, unit) prog" where
  "print m = (\<lambda>w. (Inr (), w\<lparr>stdout := stdout w @ [m]\<rparr>))"

text \<open>
  DataFrame objects. A new object gets the next reference; an assignment to a column
  changes the object it is applied to, and every reference to that object sees it.
\<close>

definition new_frame :: "dataframe \<Rightarrow> ('f, nat) prog" where
  "new_frame d = (\<lambda>w. (Inr (length (heap w)), w\<lparr>heap := heap w @ [d]\<rparr>))"

definition frame_at :: "nat \<Rightarrow> ('f, dataframe) prog" where
  "frame_at r = (\<lambda>w. (Inr (heap w ! r), w))"

definition copy :: "nat \<Rightarrow> ('f, nat) prog" where
  "copy r = andthen (frame_at r) new_frame"

definition dropna :: "nat \<Rightarrow> ('f, nat) prog" where
  "dropna r = andthen (frame_at r) (\<lambda>d. new_frame (dropna_frame d))"

definition getitem :: "nat \<Rightarrow> string \<Rightarrow> ('f, series) prog" where
  "getitem r name = andthen (frame_at r) (\<lambda>d. lift (getitem_frame d name))"

definition setitem :: "nat \<Rightarrow> string \<Rightarrow> series \<Rightarrow> ('f, unit) prog" where
  "setitem r name c =
     (\<lambda>w. (Inr (), w\<lparr>heap := (heap w)[r := setitem_frame name c (heap w ! r)]\<rparr>))"

text \<open>\<^verbatim>\<open>df[names]\<close> and \<^verbatim>\<open>df[names] = array\<close> for a list of column names.\<close>

fun getitems :: "nat \<Rightarrow> string list \<Rightarrow> ('f, series list) prog" where
  "getitems r [] = ret []"
| "getitems r (n # ns) =
     andthen (getitem r n) (\<lambda>c. andthen (getitems r ns) (\<lambda>cs. ret (c # cs)))"

fun setitems :: "nat \<Rightarrow> string list \<Rightarrow> series list \<Rightarrow> ('f, unit) prog" where
  "setitems r (n # ns) (c # cs) = andthen (setitem r n c) (\<lambda>_. setitems r ns cs)"
| "setitems r _ _ = ret ()"

text \<open>
  A step from \<open>w\<close> to \<open>w'\<close> keeps the tables that exist in \<open>w\<close>, except possibly the
  one at reference \<open>p\<close>: no table is removed and every other one is as it was.
\<close>

definition keeps_tables :: "nat \<Rightarrow> 'f world \<Rightarrow> 'f world \<Rightarrow> bool" where
  "keeps_tables p w w' \<longleftrightarrow>
     length (heap w) \<le> length (heap w') \<and>
     (\<forall>r < length (heap w). r \<noteq> p \<longrightarrow> heap w' ! r = heap w ! r)"

section \<open>The script\<close>

subsection \<open>\<^verbatim>\<open>load_data\<close> (lines 6 to 19)\<close>

text \<open>
  \<^verbatim>\<open>pd.read_csv\<close> raises FileNotFoundError when nothing is at the path; both
  \<^verbatim>\<open>except\<close> clauses print their message and return \<^verbatim>\<open>None\<close>.
\<close>

definition load_data :: "'f env \<Rightarrow> string \<Rightarrow> ('f, nat option) prog" where
  "load_data E file_path =
     (\<lambda>w. case files w file_path of
        None \<Rightarrow> andthen (print (Msg_not_found file_path)) (\<lambda>_. ret None) w
      | Some f \<Rightarrow>
          (case read_csv E f of
             Inl e \<Rightarrow> andthen (print (Msg_load_error e)) (\<lambda>_. ret None) w
           | Inr d \<Rightarrow>
               andthen (new_frame d) (\<lambda>df.
               andthen (print (Msg_loaded (shape d))) (\<lambda>_.
               ret (Some df))) w))"

subsection \<open>\<^verbatim>\<open>preprocess_penguins_data\<close> (lines 21 to 58)\<close>

definition numerical_features :: "string list" where
  "numerical_features =
     [''bill_length_mm'', ''bill_depth_mm'', ''flipper_length_mm'', ''body_mass_g'']"

definition feature_columns :: "string list" where
  "feature_columns = numerical_features @ [''island_encoded'', ''sex_encoded'']"

text \<open>Lines 26 to 33: copy the table, then drop the rows with a missing value.\<close>

definition clean :: "nat \<Rightarrow> ('f, nat) prog" where
  "clean df =
     andthen (copy df) (\<lambda>df_copy.
     andthen (frame_at df_copy) (\<lambda>d.
     andthen (print (Msg_missing_before (isnull_sum d))) (\<lambda>_.
     andthen (dropna df_copy) (\<lambda>df_processed.
     andthen (frame_at df_processed) (\<lambda>d'.
     andthen (print (Msg_missing_after (isnull_sum d'))) (\<lambda>_.
     ret df_processed))))))"

text \<open>Lines 37 to 42: one label encoding for each categorical column.\<close>

definition encode_column :: "nat \<Rightarrow> string \<Rightarrow> string \<Rightarrow> ('f, unit) prog" where
  "encode_column df_processed name encoded =
     andthen (getitem df_processed name) (\<lambda>c.
     andthen (lift (label_encoder_fit_transform c)) (\<lambda>codes.
     setitem df_processed encoded codes))"

definition encode :: "nat \<Rightarrow> ('f, unit) prog" where
  "encode df_processed =
     andthen (encode_column df_processed ''species'' ''species_encoded'') (\<lambda>_.
     andthen (encode_column df_processed ''island'' ''island_encoded'') (\<lambda>_.
     encode_column df_processed ''sex'' ''sex_encoded''))"

text \<open>Lines 45 to 47: the four numeric columns are replaced by their scaled values.\<close>

definition scale_features :: "'f env \<Rightarrow> nat \<Rightarrow> ('f, unit) prog" where
  "scale_features E df_processed =
     andthen (getitems df_processed numerical_features) (\<lambda>cs.
     andthen (lift (standard_scaler_fit_transform (floats E) cs)) (\<lambda>scaled.
     setitems df_processed numerical_features scaled))"

text \<open>Lines 50 to 58: the feature matrix, the target and the three reports.\<close>

definition select_features :: "nat \<Rightarrow> ('f, nat \<times> series \<times> nat) prog" where
  "select_features df_processed =
     andthen (getitems df_processed feature_columns) (\<lambda>cs.
     andthen (new_frame (zip feature_columns cs)) (\<lambda>X.
     andthen (getitem df_processed ''species_encoded'') (\<lambda>y.
     andthen (frame_at df_processed) (\<lambda>d.
     andthen (print (Msg_final_shape (shape d))) (\<lambda>_.
     andthen (frame_at X) (\<lambda>x.
     andthen (print (Msg_feature_shape (shape x))) (\<lambda>_.
     andthen (print (Msg_target_distribution y)) (\<lambda>_.
     ret (X, y, df_processed)))))))))"

definition preprocess_penguins_data :: "'f env \<Rightarrow> nat \<Rightarrow> ('f, nat \<times> series \<times> nat) prog" where
  "preprocess_penguins_data E df =
     andthen (clean df) (\<lambda>df_processed.
     andthen (encode df_processed) (\<lambda>_.
     andthen (scale_features E df_processed) (\<lambda>_.
     select_features df_processed)))"

subsection \<open>\<^verbatim>\<open>save_processed_data\<close> (lines 60 to 70)\<close>

text \<open>A write that raises is taken to leave the files as they were.\<close>

definition save_processed_data :: "'f env \<Rightarrow> nat \<Rightarrow> string \<Rightarrow> ('f, bool) prog" where
  "save_processed_data E df_processed output_path =
     (\<lambda>w. case write_error E output_path of
        Some e \<Rightarrow> andthen (print (Msg_save_error e)) (\<lambda>_. ret False) w
      | None \<Rightarrow>
          andthen (print (Msg_saved output_path)) (\<lambda>_. ret True)
            (w\<lparr>files := (files w)(output_path \<mapsto> to_csv E (heap w ! df_processed))\<rparr>))"

subsection \<open>\<^verbatim>\<open>main\<close> (lines 72 to 117)\<close>

definition raw_data_path :: string where
  "raw_data_path = ''../penguins_raw.csv''"

definition processed_data_path :: string where
  "processed_data_path = ''penguins_processed.csv''"

definition alternative_paths :: "string list" where
  "alternative_paths = [''penguins.csv'', ''../penguins.csv'', ''penguins_raw.csv'']"

definition path_exists :: "'f world \<Rightarrow> string \<Rightarrow> bool" where
  "path_exists w p \<longleftrightarrow> files w p \<noteq> None"

text \<open>
  Lines 81 to 95: the primary path if it exists, else the first alternative that
  exists; \<open>None\<close> is the \<^verbatim>\<open>else\<close> branch of the loop.
\<close>

definition resolve_raw_data_path :: "'f world \<Rightarrow> string option" where
  "resolve_raw_data_path w =
     (if path_exists w raw_data_path then Some raw_data_path
      else find (path_exists w) alternative_paths)"

text \<open>Lines 97 to 117: the stages in sequence, on the resolved path.\<close>

definition run_pipeline :: "'f env \<Rightarrow> string \<Rightarrow> ('f, unit) prog" where
  "run_pipeline E path =
     andthen (print Msg_start) (\<lambda>_.
     andthen (print Msg_step_load) (\<lambda>_.
     andthen (load_data E path) (\<lambda>df_raw.
       (case df_raw of
          None \<Rightarrow> ret ()
        | Some df \<Rightarrow>
            andthen (print Msg_step_preprocess) (\<lambda>_.
            andthen (preprocess_penguins_data E df) (\<lambda>(X, y, df_processed).
            andthen (print Msg_step_save) (\<lambda>_.
            andthen (save_processed_data E df_processed processed_data_path) (\<lambda>_.
            andthen (print Msg_completed) (\<lambda>_.
            andthen (print (Msg_available processed_data_path)) (\<lambda>_.
            andthen (frame_at X) (\<lambda>x.
            andthen (print (Msg_features_shape (shape x))) (\<lambda>_.
            print (Msg_target_shape (length y))))))))))))))"

definition main :: "'f env \<Rightarrow> ('f, unit) prog" where
  "main E =
     (\<lambda>w. case resolve_raw_data_path w of
        None \<Rightarrow> print Msg_raw_not_found w
      | Some path \<Rightarrow> run_pipeline E path w)"

section \<open>Example inputs\<close>

text \<open>
  A small table in the format of the penguins data: three rows, of which the last has
  two missing fields; and the world in which it is the only object.
\<close>

definition penguins_example :: dataframe where
  "penguins_example =
     [(''species'', [Text ''Gentoo'', Text ''Adelie'', Text ''Adelie'']),
      (''island'', [Text ''Biscoe'', Text ''Torgersen'', Text ''Dream'']),
      (''bill_length_mm'', [Float 41, Float 39, Missing]),
      (''bill_depth_mm'', [Float 15, Float 19, Float 18]),
      (''flipper_length_mm'', [Integer 212, Integer 210, Integer 195]),
      (''body_mass_g'', [Integer 4002, Integer 4000, Integer 3700]),
      (''sex'', [Text ''MALE'', Text ''FEMALE'', Missing])]"

text \<open>A cleaned table in which the column \<^verbatim>\<open>bill_length_mm\<close> is constant.\<close>

definition constant_example :: dataframe where
  "constant_example =
     [(''species'', [Text ''Adelie'', Text ''Gentoo'']),
      (''island'', [Text ''Dream'', Text ''Biscoe'']),
      (''bill_length_mm'', [Float 40, Float 40]),
      (''bill_depth_mm'', [Float 15, Float 19]),
      (''flipper_length_mm'', [Integer 210, Integer 212]),
      (''body_mass_g'', [Integer 4000, Integer 4002]),
      (''sex'', [Text ''FEMALE'', Text ''MALE''])]"

text \<open>
  A cleaned table that already has a column \<^verbatim>\<open>sex_encoded\<close>, as a file written by an
  earlier run of the script has.
\<close>

definition encoded_example :: dataframe where
  "encoded_example =
     [(''species'', [Text ''Adelie'', Text ''Gentoo'']),
      (''island'', [Text ''Dream'', Text ''Biscoe'']),
      (''bill_length_mm'', [Float 40, Float 40]),
      (''bill_depth_mm'', [Float 15, Float 19]),
      (''flipper_length_mm'', [Integer 210, Integer 212]),
      (''body_mass_g'', [Integer 4000, Integer 4002]),
      (''sex'', [Text ''FEMALE'', Text ''MALE'']),
      (''sex_encoded'', [Integer 7, Integer 7])]"

text \<open>
  Float operations that compute with exact numbers, NaN being left out of the mean and
  of the standard deviation. The numeric columns of the examples hold small integers, and
  every sum, mean, difference, square, square root and quotient that the scaler computes
  on them is a small integer as well, so that float64 computes the same values. The
  examples have no infinite value, no NaN and no division by zero; the operations give NaN
  there. No text is a number.
\<close>

fun finite_values :: "float64 list \<Rightarrow> real list" where
  "finite_values [] = []"
| "finite_values (Finite r # xs) = r # finite_values xs"
| "finite_values (_ # xs) = finite_values xs"

definition mean :: "real list \<Rightarrow> real" where
  "mean xs = sum_list xs / real (length xs)"

definition variance :: "real list \<Rightarrow> real" where
  "variance xs = sum_list (map (\<lambda>x. (x - mean xs)\<^sup>2) xs) / real (length xs)"

definition exact_mean :: "float64 list \<Rightarrow> float64" where
  "exact_mean xs = (if finite_values xs = [] then NaN else Finite (mean (finite_values xs)))"

definition exact_std :: "float64 list \<Rightarrow> float64" where
  "exact_std xs =
     (if finite_values xs = [] then NaN else Finite (sqrt (variance (finite_values xs))))"

fun exact_sub :: "float64 \<Rightarrow> float64 \<Rightarrow> float64" where
  "exact_sub (Finite a) (Finite b) = Finite (a - b)"
| "exact_sub _ _ = NaN"

fun exact_div :: "float64 \<Rightarrow> float64 \<Rightarrow> float64" where
  "exact_div (Finite a) (Finite b) = (if b = 0 then NaN else Finite (a / b))"
| "exact_div _ _ = NaN"

definition exact_ops :: float_ops where
  "exact_ops =
     \<lparr>float_of_int = (\<lambda>i. Finite (of_int i)),
      float_of_text = (\<lambda>_. None),
      column_mean = exact_mean,
      column_std = exact_std,
      constant_feature = (\<lambda>xs. exact_std xs = Finite 0),
      float_sub = exact_sub,
      float_div = exact_div\<rparr>"

text \<open>
  An environment in which a path holds either a table (a file that \<^verbatim>\<open>read_csv\<close>
  parses) or nothing readable and every write succeeds.
\<close>

definition example_env :: "dataframe option env" where
  "example_env =
     \<lparr>read_csv = (\<lambda>f. case f of None \<Rightarrow> Inl ''no columns to parse'' | Some d \<Rightarrow> Inr d),
      to_csv = Some,
      write_error = (\<lambda>_. None),
      floats = exact_ops\<rparr>"

definition world_of :: "dataframe \<Rightarrow> dataframe option world" where
  "world_of d = \<lparr>files = Map.empty, heap = [d], stdout = []\<rparr>"

section \<open>Properties\<close>

lemma nrows_dropna_frame: "nrows (dropna_frame d) = length (kept_rows d)"
proof (cases d)
  case Nil
  then show ?thesis by (simp add: dropna_frame_def nrows_def kept_rows_def)
next
  case (Cons c cs)
  then show ?thesis by (simp add: dropna_frame_def nrows_def)
qed

lemma length_kept_rows:
  "length (kept_rows d) = nrows d - length (filter (row_has_missing d) [0..<nrows d])"
proof -
  have "length (filter (row_has_missing d) [0..<nrows d]) + length (kept_rows d)
      = length [0..<nrows d]"
    unfolding kept_rows_def by (rule sum_length_filter_compl)
  then show ?thesis by simp
qed

lemma isnull_sum_zero_iff: "isnull_sum d = 0 \<longleftrightarrow> (\<forall>c \<in> set d. Missing \<notin> set (snd c))"
  by (auto simp: isnull_sum_def filter_empty_conv)

lemma isnull_sum_dropna_frame: "isnull_sum (dropna_frame d) = 0"
  unfolding isnull_sum_zero_iff
  by (auto simp: dropna_frame_def kept_rows_def row_has_missing_def)

lemma no_missing_kept_rows:
  assumes "wf d" and "isnull_sum d = 0"
  shows "kept_rows d = [0..<nrows d]"
proof -
  have "\<not> row_has_missing d i" if "i < nrows d" for i
  proof
    assume "row_has_missing d i"
    then obtain c where c: "c \<in> set d" "snd c ! i = Missing"
      by (auto simp: row_has_missing_def)
    from assms(1) c(1) that have "i < length (snd c)" by (simp add: wf_def)
    then have "snd c ! i \<in> set (snd c)" by simp
    with c assms(2) show False by (auto simp: isnull_sum_zero_iff)
  qed
  then show ?thesis by (simp add: kept_rows_def)
qed

lemma dropna_frame_no_missing:
  assumes "wf d" and "isnull_sum d = 0"
  shows "dropna_frame d = d"
proof -
  have "map (\<lambda>i. snd c ! i) [0..<nrows d] = snd c" if "c \<in> set d" for c
    using assms(1) that by (metis map_nth wf_def)
  then have "map (\<lambda>c. (fst c, map (\<lambda>i. snd c ! i) [0..<nrows d])) d = map (\<lambda>c. c) d"
    by (intro map_cong) auto
  then show ?thesis
    by (simp add: dropna_frame_def no_missing_kept_rows [OF assms])
qed

subsection \<open>Running statements\<close>

lemma ret_apply: "ret x w = (Inr x, w)" by (simp add: ret_def)
lemma lift_apply: "lift r w = (r, w)" by (simp add: lift_def)
lemma print_apply: "print m w = (Inr (), w\<lparr>stdout := stdout w @ [m]\<rparr>)" by (simp add: print_def)
lemma new_frame_apply: "new_frame d w = (Inr (length (heap w)), w\<lparr>heap := heap w @ [d]\<rparr>)"
  by (simp add: new_frame_def)
lemma frame_at_apply: "frame_at r w = (Inr (heap w ! r), w)" by (simp add: frame_at_def)
lemma setitem_apply:
  "setitem r name c w = (Inr (), w\<lparr>heap := (heap w)[r := setitem_frame name c (heap w ! r)]\<rparr>)"
  by (simp add: setitem_def)
lemma andthen_apply:
  "andthen m k w = (case m w of (Inl e, w') \<Rightarrow> (Inl e, w') | (Inr x, w') \<Rightarrow> k x w')"
  by (simp add: andthen_def)
lemma andthen_Inr: "m w = (Inr x, w1) \<Longrightarrow> andthen m k w = k x w1"
  by (simp add: andthen_def)
lemma andthen_Inl: "m w = (Inl e, w1) \<Longrightarrow> andthen m k w = (Inl e, w1)"
  by (simp add: andthen_def)
lemma andthen_InrE:
  assumes "andthen m k w = (Inr y, w')"
  obtains x w1 where "m w = (Inr x, w1)" and "k x w1 = (Inr y, w')"
  using assms by (auto simp: andthen_def split: prod.splits sum.splits)

lemmas prims = ret_apply lift_apply print_apply new_frame_apply frame_at_apply setitem_apply
  andthen_apply

lemma getitem_apply: "getitem r name w = (getitem_frame (heap w ! r) name, w)"
  by (simp add: getitem_def prims)

lemma copy_apply: "copy r w = (Inr (length (heap w)), w\<lparr>heap := heap w @ [heap w ! r]\<rparr>)"
  by (simp add: copy_def prims)

lemma dropna_apply:
  "dropna r w = (Inr (length (heap w)), w\<lparr>heap := heap w @ [dropna_frame (heap w ! r)]\<rparr>)"
  by (simp add: dropna_def prims)

lemma clean_apply:
  "df < length (heap w) \<Longrightarrow> clean df w =
     (Inr (Suc (length (heap w))),
      w\<lparr>heap := heap w @ [heap w ! df, dropna_frame (heap w ! df)],
        stdout := stdout w @ [Msg_missing_before (isnull_sum (heap w ! df)), Msg_missing_after 0]\<rparr>)"
  by (simp add: clean_def prims copy_apply dropna_apply nth_append isnull_sum_dropna_frame)

lemma those_map_text_of: "those (map text_of (map Text ss)) = Some ss"
  by (induction ss) simp_all

lemma label_encoder_texts:
  "label_encoder_fit_transform (map Text ss) = Inr (map (\<lambda>n. Integer (int n)) (fit_transform ss))"
  by (simp add: label_encoder_fit_transform_def those_map_text_of del: map_map)

lemma encode_column_apply:
  assumes "map_of (heap w ! p) name = Some (map Text ss)"
  shows "encode_column p name enc w =
     (Inr (), w\<lparr>heap := (heap w)[p := setitem_frame enc (map (\<lambda>n. Integer (int n)) (fit_transform ss)) (heap w ! p)]\<rparr>)"
  using assms
  by (simp add: encode_column_def prims getitem_apply getitem_frame_def label_encoder_texts)

lemma map_of_setitem_frame:
  "map_of (setitem_frame name c d) n = (if n = name then Some c else map_of d n)"
  by (simp add: setitem_frame_def update_conv')

lemma columns_setitem_frame:
  "columns (setitem_frame name c d) =
     (if name \<in> set (columns d) then columns d else columns d @ [name])"
  by (simp add: setitem_frame_def columns_def update_keys)

lemma encode_apply:
  assumes "p < length (heap w)"
    and "map_of (heap w ! p) ''species'' = Some (map Text s1)"
    and "map_of (heap w ! p) ''island'' = Some (map Text s2)"
    and "map_of (heap w ! p) ''sex'' = Some (map Text s3)"
  shows "encode p w =
     (Inr (), w\<lparr>heap := (heap w)[p :=
        setitem_frame ''sex_encoded'' (map (\<lambda>n. Integer (int n)) (fit_transform s3))
       (setitem_frame ''island_encoded'' (map (\<lambda>n. Integer (int n)) (fit_transform s2))
       (setitem_frame ''species_encoded'' (map (\<lambda>n. Integer (int n)) (fit_transform s1))
          (heap w ! p)))]\<rparr>)"
proof -
  let ?d = "heap w ! p"
  let ?d1 = "setitem_frame ''species_encoded'' (map (\<lambda>n. Integer (int n)) (fit_transform s1)) ?d"
  let ?d2 = "setitem_frame ''island_encoded'' (map (\<lambda>n. Integer (int n)) (fit_transform s2)) ?d1"
  let ?d3 = "setitem_frame ''sex_encoded'' (map (\<lambda>n. Integer (int n)) (fit_transform s3)) ?d2"
  let ?w1 = "w\<lparr>heap := (heap w)[p := ?d1]\<rparr>"
  let ?w2 = "w\<lparr>heap := (heap w)[p := ?d2]\<rparr>"
  have 1: "encode_column p ''species'' ''species_encoded'' w = (Inr (), ?w1)"
    by (rule encode_column_apply [OF assms(2)])
  have "map_of (heap ?w1 ! p) ''island'' = Some (map Text s2)"
    using assms(1,3) by (simp add: map_of_setitem_frame)
  from encode_column_apply [OF this, of "''island_encoded''"]
  have 2: "encode_column p ''island'' ''island_encoded'' ?w1 = (Inr (), ?w2)"
    using assms(1) by simp
  have "map_of (heap ?w2 ! p) ''sex'' = Some (map Text s3)"
    using assms(1,4) by (simp add: map_of_setitem_frame)
  from encode_column_apply [OF this, of "''sex_encoded''"]
  have 3: "encode_column p ''sex'' ''sex_encoded'' ?w2 = (Inr (), w\<lparr>heap := (heap w)[p := ?d3]\<rparr>)"
    using assms(1) by simp
  show ?thesis
    unfolding encode_def by (simp add: andthen_apply 1 2 3)
qed

subsection \<open>The label encoder\<close>

lemma label_classes_eq: "label_classes ys = sorted_list_of_set (set ys)"
  by (simp add: label_classes_def sorted_list_of_set_sort_remdups)

lemma set_label_classes: "set (label_classes ys) = set ys"
  by (simp add: label_classes_def)

lemma distinct_label_classes: "distinct (label_classes ys)"
  by (simp add: label_classes_def)

lemma sorted_label_classes: "sorted (label_classes ys)"
  by (simp add: label_classes_def)

lemma length_label_classes: "length (label_classes ys) = card (set ys)"
  by (metis distinct_card distinct_label_classes set_label_classes)

lemma index_of_less: "v \<in> set us \<Longrightarrow> index_of v us < length us"
  by (induction us) auto

lemma nth_index_of: "v \<in> set us \<Longrightarrow> us ! index_of v us = v"
  by (induction us) auto

lemma index_of_nth: "distinct us \<Longrightarrow> i < length us \<Longrightarrow> index_of (us ! i) us = i"
proof (induction us arbitrary: i)
  case Nil
  then show ?case by simp
next
  case (Cons u us)
  then show ?case by (cases i) auto
qed

lemma index_of_inj:
  "u \<in> set us \<Longrightarrow> v \<in> set us \<Longrightarrow> index_of u us = index_of v us \<longleftrightarrow> u = v"
  by (metis nth_index_of)

text \<open>In a sorted list without repetition, the position of a value is the number of
  values below it.\<close>

lemma index_of_sorted:
  "sorted us \<Longrightarrow> distinct us \<Longrightarrow> v \<in> set us \<Longrightarrow> index_of v us = card {u \<in> set us. u < v}"
proof (induction us)
  case Nil
  then show ?case by simp
next
  case (Cons a us)
  show ?case
  proof (cases "v = a")
    case True
    with Cons.prems have "{u \<in> set (a # us). u < v} = {}" by auto
    with True show ?thesis by simp
  next
    case False
    with Cons.prems have v: "v \<in> set us" and av: "a < v" by auto
    from Cons.prems have "a \<notin> set us" by simp
    with av have "{u \<in> set (a # us). u < v} = insert a {u \<in> set us. u < v}" by auto
    moreover have "a \<notin> {u \<in> set us. u < v}" using \<open>a \<notin> set us\<close> by simp
    ultimately have "card {u \<in> set (a # us). u < v} = Suc (card {u \<in> set us. u < v})"
      by simp
    with Cons False v show ?thesis by simp
  qed
qed

lemma fit_transform_eq:
  "fit_transform ys = map (\<lambda>v. card {u \<in> set ys. u < v}) ys"
  unfolding fit_transform_def
  by (rule map_cong [OF refl])
     (simp add: index_of_sorted sorted_label_classes distinct_label_classes set_label_classes)

lemma length_fit_transform: "length (fit_transform ys) = length ys"
  by (simp add: fit_transform_def)

lemma set_fit_transform: "set (fit_transform ys) = {0..<card (set ys)}"
proof -
  let ?cs = "label_classes ys"
  have "set (fit_transform ys) = (\<lambda>v. index_of v ?cs) ` set ?cs"
    by (simp add: fit_transform_def set_label_classes)
  also have "set ?cs = (\<lambda>i. ?cs ! i) ` {0..<length ?cs}"
    by (simp add: nth_image)
  also have "(\<lambda>v. index_of v ?cs) ` \<dots> = (\<lambda>i. index_of (?cs ! i) ?cs) ` {0..<length ?cs}"
    by (simp add: image_image)
  also have "\<dots> = {0..<length ?cs}"
    by (simp add: index_of_nth distinct_label_classes)
  finally show ?thesis by (simp add: length_label_classes)
qed

lemma fit_transform_nth_eq:
  assumes "i < length ys" and "j < length ys"
  shows "fit_transform ys ! i = fit_transform ys ! j \<longleftrightarrow> ys ! i = ys ! j"
  using assms by (simp add: fit_transform_def index_of_inj set_label_classes)

subsection \<open>The clean step\<close>

text \<open>
  C1. The clean step (lines 26 to 33) returns, for every table, a table whose number of
  rows is the number of rows of the input minus the number of its rows that hold a
  missing field; the number of rows is unchanged when the input has no missing value;
  and the returned table has no missing value.
\<close>

theorem clean_row_count:
  assumes "df < length (heap w)" and "wf (heap w ! df)"
  shows "\<exists>p w'. clean df w = (Inr p, w') \<and>
     nrows (heap w' ! p) =
       nrows (heap w ! df) -
       length (filter (row_has_missing (heap w ! df)) [0..<nrows (heap w ! df)]) \<and>
     (isnull_sum (heap w ! df) = 0 \<longrightarrow> nrows (heap w' ! p) = nrows (heap w ! df)) \<and>
     isnull_sum (heap w' ! p) = 0"
proof -
  let ?d = "heap w ! df"
  have "nrows (dropna_frame ?d) = nrows ?d" if "isnull_sum ?d = 0"
    using dropna_frame_no_missing [OF assms(2) that] by simp
  then show ?thesis
    using assms(1)
    by (simp add: clean_apply nth_append nrows_dropna_frame length_kept_rows
        isnull_sum_dropna_frame)
qed

lemma wf_penguins_example: "wf penguins_example"
  by (simp add: wf_def penguins_example_def columns_def nrows_def)

lemma nrows_penguins_example: "nrows penguins_example = 3"
  by (simp add: penguins_example_def nrows_def)

lemma missing_rows_penguins_example:
  "filter (row_has_missing penguins_example) [0..<3] = [2]"
  by (simp add: penguins_example_def row_has_missing_def upt_rec)

theorem clean_row_count_witness:
  "\<exists>p w'. clean 0 (world_of penguins_example) = (Inr p, w') \<and>
     nrows (heap w' ! p) = 2 \<and> isnull_sum (heap w' ! p) = 0"
  using clean_row_count [of 0 "world_of penguins_example"]
  by (simp add: world_of_def wf_penguins_example nrows_penguins_example
      missing_rows_penguins_example) blast

lemma upt_3: "[0..<3] = [0, 1, 2]"
  by code_simp

lemma kept_rows_penguins_example: "kept_rows penguins_example = [0, 1]"
  unfolding kept_rows_def nrows_penguins_example upt_3
  by (simp add: row_has_missing_def penguins_example_def)

lemma dropna_penguins_example:
  "dropna_frame penguins_example =
     [(''species'', [Text ''Gentoo'', Text ''Adelie'']),
      (''island'', [Text ''Biscoe'', Text ''Torgersen'']),
      (''bill_length_mm'', [Float 41, Float 39]),
      (''bill_depth_mm'', [Float 15, Float 19]),
      (''flipper_length_mm'', [Integer 212, Integer 210]),
      (''body_mass_g'', [Integer 4002, Integer 4000]),
      (''sex'', [Text ''MALE'', Text ''FEMALE''])]"
  unfolding dropna_frame_def kept_rows_penguins_example
  by (simp add: penguins_example_def)

subsection \<open>The encoding step\<close>

lemma card_code_cells:
  "card (set (map (\<lambda>n. Integer (int n)) (fit_transform ys))) = card (set ys)"
proof -
  have "inj_on (\<lambda>n. Integer (int n)) (set (fit_transform ys))"
    by (simp add: inj_on_def)
  then have "card ((\<lambda>n. Integer (int n)) ` set (fit_transform ys)) = card (set (fit_transform ys))"
    by (rule card_image)
  then show ?thesis
    by (simp add: set_fit_transform)
qed

lemma code_cells_nth_eq:
  assumes "i < length ys" and "j < length ys"
  shows "map (\<lambda>n. Integer (int n)) (fit_transform ys) ! i =
         map (\<lambda>n. Integer (int n)) (fit_transform ys) ! j \<longleftrightarrow> ys ! i = ys ! j"
  using assms fit_transform_nth_eq [OF assms]
  by (simp add: length_fit_transform)

lemma code_cells_bijective:
  "\<exists>c. map (\<lambda>n. Integer (int n)) (fit_transform ys) = c \<and>
     length c = length ys \<and> (\<forall>x \<in> set c. \<exists>n. x = Integer (int n)) \<and>
     card (set c) = card (set ys) \<and>
     (\<forall>i<length ys. \<forall>j<length ys. c ! i = c ! j \<longleftrightarrow> ys ! i = ys ! j)"
proof (intro exI conjI)
  show "map (\<lambda>n. Integer (int n)) (fit_transform ys) = map (\<lambda>n. Integer (int n)) (fit_transform ys)"
    by (rule refl)
  show "length (map (\<lambda>n. Integer (int n)) (fit_transform ys)) = length ys"
    by (simp add: length_fit_transform)
  show "\<forall>x \<in> set (map (\<lambda>n. Integer (int n)) (fit_transform ys)). \<exists>n. x = Integer (int n)"
    by auto
  show "card (set (map (\<lambda>n. Integer (int n)) (fit_transform ys))) = card (set ys)"
    by (rule card_code_cells)
  show "\<forall>i<length ys. \<forall>j<length ys.
      map (\<lambda>n. Integer (int n)) (fit_transform ys) ! i =
      map (\<lambda>n. Integer (int n)) (fit_transform ys) ! j \<longleftrightarrow> ys ! i = ys ! j"
    using code_cells_nth_eq by blast
qed

text \<open>
  C2. On a cleaned table whose columns species, island and sex hold texts, the encoding
  step (lines 37 to 42) succeeds, leaves the three columns as they are, and adds for each
  of them a column of integer cells that is in bijection with the texts: one cell for each
  row, as many distinct cells as distinct texts, and two rows have the same cell exactly
  when they have the same text.
\<close>

theorem encode_codes_bijective:
  assumes "p < length (heap w)"
    and "map_of (heap w ! p) ''species'' = Some (map Text s1)"
    and "map_of (heap w ! p) ''island'' = Some (map Text s2)"
    and "map_of (heap w ! p) ''sex'' = Some (map Text s3)"
  shows "\<exists>w'. encode p w = (Inr (), w') \<and>
     (\<forall>(name, encoded, ss) \<in> set [(''species'', ''species_encoded'', s1),
          (''island'', ''island_encoded'', s2), (''sex'', ''sex_encoded'', s3)].
        map_of (heap w' ! p) name = Some (map Text ss) \<and>
        (\<exists>c. map_of (heap w' ! p) encoded = Some c \<and>
           length c = length ss \<and> (\<forall>x \<in> set c. \<exists>n. x = Integer (int n)) \<and>
           card (set c) = card (set ss) \<and>
           (\<forall>i<length ss. \<forall>j<length ss. c ! i = c ! j \<longleftrightarrow> ss ! i = ss ! j)))"
proof -
  let ?w' = "w\<lparr>heap := (heap w)[p :=
        setitem_frame ''sex_encoded'' (map (\<lambda>n. Integer (int n)) (fit_transform s3))
       (setitem_frame ''island_encoded'' (map (\<lambda>n. Integer (int n)) (fit_transform s2))
       (setitem_frame ''species_encoded'' (map (\<lambda>n. Integer (int n)) (fit_transform s1))
          (heap w ! p)))]\<rparr>"
  have run: "encode p w = (Inr (), ?w')"
    by (rule encode_apply [OF assms])
  have old: "map_of (heap ?w' ! p) ''species'' = Some (map Text s1)"
    "map_of (heap ?w' ! p) ''island'' = Some (map Text s2)"
    "map_of (heap ?w' ! p) ''sex'' = Some (map Text s3)"
    using assms by (simp_all add: map_of_setitem_frame)
  have new: "map_of (heap ?w' ! p) ''species_encoded'' =
      Some (map (\<lambda>n. Integer (int n)) (fit_transform s1))"
    "map_of (heap ?w' ! p) ''island_encoded'' =
      Some (map (\<lambda>n. Integer (int n)) (fit_transform s2))"
    "map_of (heap ?w' ! p) ''sex_encoded'' =
      Some (map (\<lambda>n. Integer (int n)) (fit_transform s3))"
    using assms(1) by (simp_all add: map_of_setitem_frame)
  have bij: "\<exists>c. map_of (heap ?w' ! p) encoded = Some c \<and>
      length c = length ss \<and> (\<forall>x \<in> set c. \<exists>n. x = Integer (int n)) \<and>
      card (set c) = card (set ss) \<and>
      (\<forall>i<length ss. \<forall>j<length ss. c ! i = c ! j \<longleftrightarrow> ss ! i = ss ! j)"
    if "map_of (heap ?w' ! p) encoded = Some (map (\<lambda>n. Integer (int n)) (fit_transform ss))"
    for encoded and ss :: "string list"
    using code_cells_bijective [of ss] that by metis
  show ?thesis
    using run old bij [OF new(1)] bij [OF new(2)] bij [OF new(3)]
    by simp
qed

theorem encode_codes_bijective_witness:
  "\<exists>w'. encode 0 (world_of (dropna_frame penguins_example)) = (Inr (), w') \<and>
     (\<forall>(name, encoded, ss) \<in> set [(''species'', ''species_encoded'', [''Gentoo'', ''Adelie'']),
          (''island'', ''island_encoded'', [''Biscoe'', ''Torgersen'']),
          (''sex'', ''sex_encoded'', [''MALE'', ''FEMALE''])].
        map_of (heap w' ! 0) name = Some (map Text ss) \<and>
        (\<exists>c. map_of (heap w' ! 0) encoded = Some c \<and>
           length c = length ss \<and> (\<forall>x \<in> set c. \<exists>n. x = Integer (int n)) \<and>
           card (set c) = card (set ss) \<and>
           (\<forall>i<length ss. \<forall>j<length ss. c ! i = c ! j \<longleftrightarrow> ss ! i = ss ! j)))"
  by (rule encode_codes_bijective) (simp_all add: world_of_def dropna_penguins_example)

text \<open>
  C9. On such a table, the code stored for a text is the number of distinct texts of the
  column below it, which is the position of the text in the ascending list of the distinct
  texts of the column. The codes are therefore the numbers from 0 to k - 1 for k distinct
  texts, and the code of a text depends on the set of texts of the column only, not on the
  order of the rows.
\<close>

theorem encode_codes_sorted:
  assumes "p < length (heap w)"
    and "map_of (heap w ! p) ''species'' = Some (map Text s1)"
    and "map_of (heap w ! p) ''island'' = Some (map Text s2)"
    and "map_of (heap w ! p) ''sex'' = Some (map Text s3)"
  shows "\<exists>w'. encode p w = (Inr (), w') \<and>
     (\<forall>(encoded, ss) \<in> set [(''species_encoded'', s1), (''island_encoded'', s2),
          (''sex_encoded'', s3)].
        map_of (heap w' ! p) encoded =
          Some (map (\<lambda>v. Integer (int (card {u \<in> set ss. u < v}))) ss) \<and>
        (\<forall>v \<in> set ss. card {u \<in> set ss. u < v} < card (set ss) \<and>
           sorted_list_of_set (set ss) ! card {u \<in> set ss. u < v} = v) \<and>
        (\<lambda>v. card {u \<in> set ss. u < v}) ` set ss = {0..<card (set ss)})"
proof -
  let ?w' = "w\<lparr>heap := (heap w)[p :=
        setitem_frame ''sex_encoded'' (map (\<lambda>n. Integer (int n)) (fit_transform s3))
       (setitem_frame ''island_encoded'' (map (\<lambda>n. Integer (int n)) (fit_transform s2))
       (setitem_frame ''species_encoded'' (map (\<lambda>n. Integer (int n)) (fit_transform s1))
          (heap w ! p)))]\<rparr>"
  have run: "encode p w = (Inr (), ?w')"
    by (rule encode_apply [OF assms])
  have 1: "map (\<lambda>n. Integer (int n)) (fit_transform ss) =
      map (\<lambda>v. Integer (int (card {u \<in> set ss. u < v}))) ss"
    for ss :: "string list"
    by (simp add: fit_transform_eq)
  have new: "map_of (heap ?w' ! p) ''species_encoded'' =
      Some (map (\<lambda>v. Integer (int (card {u \<in> set s1. u < v}))) s1)"
    "map_of (heap ?w' ! p) ''island_encoded'' =
      Some (map (\<lambda>v. Integer (int (card {u \<in> set s2. u < v}))) s2)"
    "map_of (heap ?w' ! p) ''sex_encoded'' =
      Some (map (\<lambda>v. Integer (int (card {u \<in> set s3. u < v}))) s3)"
    using assms(1) by (simp_all add: map_of_setitem_frame 1 del: map_map)
  have 2: "card {u \<in> set ss. u < v} < card (set ss) \<and>
      sorted_list_of_set (set ss) ! card {u \<in> set ss. u < v} = v"
    if "v \<in> set ss" for v and ss :: "string list"
  proof -
    have v: "v \<in> set (label_classes ss)"
      using that by (simp add: set_label_classes)
    have "index_of v (label_classes ss) = card {u \<in> set ss. u < v}"
      using index_of_sorted [OF sorted_label_classes distinct_label_classes v]
      by (simp add: set_label_classes)
    with index_of_less [OF v] nth_index_of [OF v] show ?thesis
      by (simp add: length_label_classes label_classes_eq)
  qed
  have 3: "(\<lambda>v. card {u \<in> set ss. u < v}) ` set ss = {0..<card (set ss)}"
    for ss :: "string list"
    using set_fit_transform [of ss] by (simp add: fit_transform_eq)
  show ?thesis
    using run new 2 3 by simp
qed

theorem encode_codes_sorted_witness:
  "\<exists>w'. encode 0 (world_of (dropna_frame penguins_example)) = (Inr (), w') \<and>
     (\<forall>(encoded, ss) \<in> set [(''species_encoded'', [''Gentoo'', ''Adelie'']),
          (''island_encoded'', [''Biscoe'', ''Torgersen'']),
          (''sex_encoded'', [''MALE'', ''FEMALE''])].
        map_of (heap w' ! 0) encoded =
          Some (map (\<lambda>v. Integer (int (card {u \<in> set ss. u < v}))) ss) \<and>
        (\<forall>v \<in> set ss. card {u \<in> set ss. u < v} < card (set ss) \<and>
           sorted_list_of_set (set ss) ! card {u \<in> set ss. u < v} = v) \<and>
        (\<lambda>v. card {u \<in> set ss. u < v}) ` set ss = {0..<card (set ss)})"
  by (rule encode_codes_sorted) (simp_all add: world_of_def dropna_penguins_example)

text \<open>
  In the example the species column of the cleaned table is Gentoo, Adelie: the value
  that appears first gets the code 1, since Adelie is the smaller text.
\<close>

lemma example_codes:
  "fit_transform [''Gentoo'', ''Adelie''] = [1, 0]"
  "fit_transform [''Biscoe'', ''Torgersen''] = [0, 1]"
  "fit_transform [''MALE'', ''FEMALE''] = [1, 0]"
  by (simp_all add: fit_transform_def label_classes_def)

lemma example_code_columns:
  "map_of (heap (snd (encode 0 (world_of (dropna_frame penguins_example)))) ! 0)
     ''species_encoded'' = Some [Integer 1, Integer 0]"
  "map_of (heap (snd (encode 0 (world_of (dropna_frame penguins_example)))) ! 0)
     ''island_encoded'' = Some [Integer 0, Integer 1]"
  "map_of (heap (snd (encode 0 (world_of (dropna_frame penguins_example)))) ! 0)
     ''sex_encoded'' = Some [Integer 1, Integer 0]"
proof -
  have "encode 0 (world_of (dropna_frame penguins_example)) =
     (Inr (), (world_of (dropna_frame penguins_example))\<lparr>heap :=
        (heap (world_of (dropna_frame penguins_example)))[0 :=
        setitem_frame ''sex_encoded'' (map (\<lambda>n. Integer (int n)) (fit_transform [''MALE'', ''FEMALE'']))
       (setitem_frame ''island_encoded'' (map (\<lambda>n. Integer (int n)) (fit_transform [''Biscoe'', ''Torgersen'']))
       (setitem_frame ''species_encoded'' (map (\<lambda>n. Integer (int n)) (fit_transform [''Gentoo'', ''Adelie'']))
          (heap (world_of (dropna_frame penguins_example)) ! 0)))]\<rparr>)"
    by (rule encode_apply) (simp_all add: world_of_def dropna_penguins_example)
  then show
    "map_of (heap (snd (encode 0 (world_of (dropna_frame penguins_example)))) ! 0)
       ''species_encoded'' = Some [Integer 1, Integer 0]"
    "map_of (heap (snd (encode 0 (world_of (dropna_frame penguins_example)))) ! 0)
       ''island_encoded'' = Some [Integer 0, Integer 1]"
    "map_of (heap (snd (encode 0 (world_of (dropna_frame penguins_example)))) ! 0)
       ''sex_encoded'' = Some [Integer 1, Integer 0]"
    by (simp_all add: world_of_def map_of_setitem_frame example_codes)
qed

subsection \<open>The scaling step\<close>

lemma scale_features_apply:
  assumes "p < length (heap w)"
    and "map_of (heap w ! p) ''bill_length_mm'' = Some c1"
    and "map_of (heap w ! p) ''bill_depth_mm'' = Some c2"
    and "map_of (heap w ! p) ''flipper_length_mm'' = Some c3"
    and "map_of (heap w ! p) ''body_mass_g'' = Some c4"
    and "those (map (as_float (floats E)) c1) = Some x1"
    and "those (map (as_float (floats E)) c2) = Some x2"
    and "those (map (as_float (floats E)) c3) = Some x3"
    and "those (map (as_float (floats E)) c4) = Some x4"
    and "x1 \<noteq> []"
    and "\<not> list_ex is_infinite x1" and "\<not> list_ex is_infinite x2"
    and "\<not> list_ex is_infinite x3" and "\<not> list_ex is_infinite x4"
  shows "scale_features E p w =
     (Inr (), w\<lparr>heap := (heap w)[p :=
        setitem_frame ''body_mass_g'' (map cell_of_float64 (standardize (floats E) x4))
       (setitem_frame ''flipper_length_mm'' (map cell_of_float64 (standardize (floats E) x3))
       (setitem_frame ''bill_depth_mm'' (map cell_of_float64 (standardize (floats E) x2))
       (setitem_frame ''bill_length_mm'' (map cell_of_float64 (standardize (floats E) x1))
          (heap w ! p))))]\<rparr>)"
  using assms
  by (simp add: scale_features_def numerical_features_def prims getitem_apply
      getitem_frame_def standard_scaler_fit_transform_def)

lemma scaled_column:
  assumes "n \<in> set numerical_features"
  shows "map_of
       (setitem_frame ''body_mass_g'' (f (col ''body_mass_g''))
       (setitem_frame ''flipper_length_mm'' (f (col ''flipper_length_mm''))
       (setitem_frame ''bill_depth_mm'' (f (col ''bill_depth_mm''))
       (setitem_frame ''bill_length_mm'' (f (col ''bill_length_mm'')) d)))) n
     = Some (f (col n))"
  using assms by (auto simp: numerical_features_def map_of_setitem_frame)

lemma scale_features_columns:
  assumes "p < length (heap w)"
    and "\<forall>n \<in> set numerical_features. \<exists>c. map_of (heap w ! p) n = Some c \<and>
           those (map (as_float (floats E)) c) = Some (col n) \<and> \<not> list_ex is_infinite (col n)"
    and "col ''bill_length_mm'' \<noteq> []"
  shows "\<exists>w'. scale_features E p w = (Inr (), w') \<and>
     (\<forall>n \<in> set numerical_features.
        map_of (heap w' ! p) n = Some (map cell_of_float64 (standardize (floats E) (col n))))"
proof -
  from assms(2) obtain c1 c2 c3 c4 where
    "map_of (heap w ! p) ''bill_length_mm'' = Some c1"
    "map_of (heap w ! p) ''bill_depth_mm'' = Some c2"
    "map_of (heap w ! p) ''flipper_length_mm'' = Some c3"
    "map_of (heap w ! p) ''body_mass_g'' = Some c4"
    "those (map (as_float (floats E)) c1) = Some (col ''bill_length_mm'')"
    "those (map (as_float (floats E)) c2) = Some (col ''bill_depth_mm'')"
    "those (map (as_float (floats E)) c3) = Some (col ''flipper_length_mm'')"
    "those (map (as_float (floats E)) c4) = Some (col ''body_mass_g'')"
    unfolding numerical_features_def by fastforce
  moreover from assms(2) have
    "\<not> list_ex is_infinite (col ''bill_length_mm'')"
    "\<not> list_ex is_infinite (col ''bill_depth_mm'')"
    "\<not> list_ex is_infinite (col ''flipper_length_mm'')"
    "\<not> list_ex is_infinite (col ''body_mass_g'')"
    unfolding numerical_features_def by auto
  ultimately have "scale_features E p w =
     (Inr (), w\<lparr>heap := (heap w)[p :=
        setitem_frame ''body_mass_g''
          (map cell_of_float64 (standardize (floats E) (col ''body_mass_g'')))
       (setitem_frame ''flipper_length_mm''
          (map cell_of_float64 (standardize (floats E) (col ''flipper_length_mm'')))
       (setitem_frame ''bill_depth_mm''
          (map cell_of_float64 (standardize (floats E) (col ''bill_depth_mm'')))
       (setitem_frame ''bill_length_mm''
          (map cell_of_float64 (standardize (floats E) (col ''bill_length_mm'')))
          (heap w ! p))))]\<rparr>)"
    using assms(1,3) by (intro scale_features_apply)
  then show ?thesis
    using assms(1)
    by (simp add: scaled_column [where f = "\<lambda>xs. map cell_of_float64 (standardize (floats E) xs)"])
qed

lemma scale_nonzero: "scale A xs \<noteq> Finite 0"
  by (simp add: scale_def)

lemma scale_zero_std: "column_std A xs = Finite 0 \<Longrightarrow> scale A xs = Finite 1"
  by (simp add: scale_def)

lemma floats_example_env: "floats example_env = exact_ops"
  by (simp add: example_env_def)

lemma float_of_int_exact_ops: "float_of_int exact_ops i = Finite (of_int i)"
  by (simp add: exact_ops_def)

lemma float_sub_div_exact_ops:
  "float_sub exact_ops = exact_sub" "float_div exact_ops = exact_div"
  by (simp_all add: exact_ops_def)

lemma example_constant_column:
  "column_mean exact_ops [Finite 40, Finite 40] = Finite 40"
  "column_std exact_ops [Finite 40, Finite 40] = Finite 0"
  "scale exact_ops [Finite 40, Finite 40] = Finite 1"
  "standardize exact_ops [Finite 40, Finite 40] = [Finite 0, Finite 0]"
  by (simp_all add: exact_ops_def standardize_def scale_def exact_mean_def
      exact_std_def mean_def variance_def)

text \<open>
  C4, as amended. On a cleaned table with at least one row whose four numeric columns
  hold finite numbers, the scaling step (lines 45 to 47) raises no error and divides no
  column by zero: the divisor of a column is never zero, it is 1 for a column whose
  standard deviation is zero, and each value of a column is replaced by the difference to
  the mean of the column divided by that divisor.
\<close>

theorem scale_features_zero_variance:
  assumes "p < length (heap w)"
    and "\<forall>n \<in> set numerical_features. \<exists>c. map_of (heap w ! p) n = Some c \<and>
           those (map (as_float (floats E)) c) = Some (col n) \<and> \<not> list_ex is_infinite (col n)"
    and "col ''bill_length_mm'' \<noteq> []"
  shows "\<exists>w'. scale_features E p w = (Inr (), w') \<and>
     (\<forall>n \<in> set numerical_features.
        scale (floats E) (col n) \<noteq> Finite 0 \<and>
        (column_std (floats E) (col n) = Finite 0 \<longrightarrow> scale (floats E) (col n) = Finite 1) \<and>
        map_of (heap w' ! p) n =
          Some (map (\<lambda>x. cell_of_float64
                  (float_div (floats E) (float_sub (floats E) x (column_mean (floats E) (col n)))
                     (scale (floats E) (col n)))) (col n)))"
proof -
  obtain w' where run: "scale_features E p w = (Inr (), w')"
    and cols: "\<forall>n \<in> set numerical_features.
        map_of (heap w' ! p) n = Some (map cell_of_float64 (standardize (floats E) (col n)))"
    using scale_features_columns [OF assms] by blast
  have "map cell_of_float64 (standardize (floats E) xs) =
      map (\<lambda>x. cell_of_float64
         (float_div (floats E) (float_sub (floats E) x (column_mean (floats E) xs))
            (scale (floats E) xs))) xs" for xs
    by (simp add: standardize_def)
  with run cols show ?thesis
    by (simp add: scale_nonzero scale_zero_std)
qed

theorem scale_features_zero_variance_witness:
  "\<exists>w'. scale_features example_env 0 (world_of constant_example) = (Inr (), w') \<and>
     scale (floats example_env) [Finite 40, Finite 40] = Finite 1 \<and>
     map_of (heap w' ! 0) ''bill_length_mm'' = Some [Float 0, Float 0]"
  using scale_features_zero_variance [of 0 "world_of constant_example" example_env
      "\<lambda>n. if n = ''bill_length_mm'' then [Finite 40, Finite 40]
                 else if n = ''bill_depth_mm'' then [Finite 15, Finite 19]
                 else if n = ''flipper_length_mm'' then [Finite 210, Finite 212]
                 else [Finite 4000, Finite 4002]"]
  by (simp add: world_of_def constant_example_def numerical_features_def
        floats_example_env float_of_int_exact_ops float_sub_div_exact_ops
        example_constant_column) blast

text \<open>
  C4 as stated fails: in the example with the constant column \<^verbatim>\<open>bill_length_mm\<close>,
  whose standard deviation is zero, the scaling step returns without an error, the divisor
  of the column is 1 and the column becomes 0, 0.
\<close>

theorem scale_features_zero_variance_counterexample:
  "fst (scale_features example_env 0 (world_of constant_example)) = Inr () \<and>
   column_std (floats example_env) [Finite 40, Finite 40] = Finite 0 \<and>
   scale (floats example_env) [Finite 40, Finite 40] = Finite 1 \<and>
   map_of (heap (snd (scale_features example_env 0 (world_of constant_example))) ! 0)
     ''bill_length_mm'' = Some [Float 0, Float 0]"
proof -
  have "scale_features example_env 0 (world_of constant_example) =
     (Inr (), (world_of constant_example)\<lparr>heap := (heap (world_of constant_example))[0 :=
        setitem_frame ''body_mass_g''
          (map cell_of_float64 (standardize (floats example_env) [Finite 4000, Finite 4002]))
       (setitem_frame ''flipper_length_mm''
          (map cell_of_float64 (standardize (floats example_env) [Finite 210, Finite 212]))
       (setitem_frame ''bill_depth_mm''
          (map cell_of_float64 (standardize (floats example_env) [Finite 15, Finite 19]))
       (setitem_frame ''bill_length_mm''
          (map cell_of_float64 (standardize (floats example_env) [Finite 40, Finite 40]))
          (heap (world_of constant_example) ! 0))))]\<rparr>)"
    using scale_features_apply [of 0 "world_of constant_example"
        "[Float 40, Float 40]" "[Float 15, Float 19]" "[Integer 210, Integer 212]"
        "[Integer 4000, Integer 4002]" example_env "[Finite 40, Finite 40]"
        "[Finite 15, Finite 19]" "[Finite 210, Finite 212]" "[Finite 4000, Finite 4002]"]
    by (simp add: world_of_def constant_example_def floats_example_env float_of_int_exact_ops)
  then show ?thesis
    by (simp add: floats_example_env example_constant_column map_of_setitem_frame world_of_def)
qed

subsection \<open>The input table\<close>

lemma keeps_tables_refl: "keeps_tables p w w"
  by (simp add: keeps_tables_def)

lemma keeps_tables_trans:
  "keeps_tables p w w1 \<Longrightarrow> keeps_tables p w1 w2 \<Longrightarrow> keeps_tables p w w2"
  by (auto simp: keeps_tables_def)

lemma keeps_andthen:
  assumes "\<And>w. keeps_tables p w (snd (m w))"
    and "\<And>x w. keeps_tables p w (snd (k x w))"
  shows "keeps_tables p w (snd (andthen m k w))"
proof (cases "m w")
  case (Pair r w1)
  with assms(1) [of w] have 1: "keeps_tables p w w1" by simp
  show ?thesis
  proof (cases r)
    case (Inl e)
    with Pair 1 show ?thesis by (simp add: andthen_def)
  next
    case (Inr x)
    with Pair have "andthen m k w = k x w1" by (simp add: andthen_def)
    moreover have "keeps_tables p w (snd (k x w1))"
      by (rule keeps_tables_trans [OF 1 assms(2)])
    ultimately show ?thesis by simp
  qed
qed

lemma keeps_prims:
  "keeps_tables p w (snd (ret x w))"
  "keeps_tables p w (snd (lift r w))"
  "keeps_tables p w (snd (print m w))"
  "keeps_tables p w (snd (frame_at q w))"
  "keeps_tables p w (snd (new_frame d w))"
  "keeps_tables p w (snd (setitem p name c w))"
  by (simp_all add: prims keeps_tables_def nth_append)

lemma keeps_getitem: "keeps_tables p w (snd (getitem q name w))"
  unfolding getitem_def by (intro keeps_andthen keeps_prims)

lemma keeps_copy: "keeps_tables p w (snd (copy q w))"
  unfolding copy_def by (intro keeps_andthen keeps_prims)

lemma keeps_dropna: "keeps_tables p w (snd (dropna q w))"
  unfolding dropna_def by (intro keeps_andthen keeps_prims)

lemma keeps_getitems: "keeps_tables p w (snd (getitems q names w))"
proof (induction names arbitrary: w)
  case Nil
  show ?case by (simp add: keeps_prims)
next
  case (Cons n ns)
  show ?case
    unfolding getitems.simps
    by (intro keeps_andthen keeps_getitem keeps_prims Cons.IH)
qed

lemma keeps_setitems: "keeps_tables p w (snd (setitems p names cs w))"
proof (induction p names cs arbitrary: w rule: setitems.induct)
  case (1 r n ns c cs)
  show ?case
    unfolding setitems.simps
    by (intro keeps_andthen keeps_prims "1.IH")
qed (simp_all add: keeps_prims)

lemma keeps_clean: "keeps_tables p w (snd (clean df w))"
  unfolding clean_def by (intro keeps_andthen keeps_prims keeps_copy keeps_dropna)

lemma keeps_encode_column: "keeps_tables p w (snd (encode_column p name enc w))"
  unfolding encode_column_def by (intro keeps_andthen keeps_prims keeps_getitem)

lemma keeps_encode: "keeps_tables p w (snd (encode p w))"
  unfolding encode_def by (intro keeps_andthen keeps_encode_column)

lemma keeps_scale_features: "keeps_tables p w (snd (scale_features E p w))"
  unfolding scale_features_def
  by (intro keeps_andthen keeps_prims keeps_getitems keeps_setitems)

lemma keeps_select_features: "keeps_tables p w (snd (select_features p w))"
  unfolding select_features_def
  by (intro keeps_andthen keeps_prims keeps_getitems keeps_getitem)

lemma keeps_after_clean:
  "keeps_tables p w
     (snd (andthen (encode p) (\<lambda>_. andthen (scale_features E p) (\<lambda>_. select_features p)) w))"
  by (intro keeps_andthen keeps_encode keeps_scale_features keeps_select_features)

text \<open>
  C10. \<^verbatim>\<open>preprocess_penguins_data\<close> leaves the table it is given as it was: whether the
  call returns or raises, the input table, and every other table that existed before the
  call, has the same columns and cells afterwards. The function works on the copy of line
  26 and on the table that \<^verbatim>\<open>dropna\<close> returns.
\<close>

theorem preprocess_keeps_input:
  assumes "df < length (heap w)"
  shows "heap (snd (preprocess_penguins_data E df w)) ! df = heap w ! df \<and>
     (\<forall>r < length (heap w). heap (snd (preprocess_penguins_data E df w)) ! r = heap w ! r)"
proof -
  let ?p = "Suc (length (heap w))"
  let ?w1 = "w\<lparr>heap := heap w @ [heap w ! df, dropna_frame (heap w ! df)],
        stdout := stdout w @ [Msg_missing_before (isnull_sum (heap w ! df)), Msg_missing_after 0]\<rparr>"
  let ?rest = "andthen (encode ?p) (\<lambda>_. andthen (scale_features E ?p) (\<lambda>_. select_features ?p))"
  have "preprocess_penguins_data E df w = ?rest ?w1"
    by (simp add: preprocess_penguins_data_def andthen_apply clean_apply [OF assms])
  moreover have "keeps_tables ?p ?w1 (snd (?rest ?w1))"
    by (rule keeps_after_clean)
  ultimately show ?thesis
    using assms by (auto simp: keeps_tables_def nth_append)
qed

theorem preprocess_keeps_input_witness:
  "heap (snd (preprocess_penguins_data example_env 0 (world_of penguins_example))) ! 0 =
     penguins_example"
  using preprocess_keeps_input [of 0 "world_of penguins_example" example_env]
  by (simp add: world_of_def)

subsection \<open>The processed table\<close>

lemma columns_dropna_frame: "columns (dropna_frame d) = columns d"
  by (simp add: columns_def dropna_frame_def comp_def)

lemma map_of_in_columns: "map_of d n = Some c \<Longrightarrow> n \<in> set (columns d)"
  by (auto simp: columns_def dest: map_of_SomeD intro: rev_image_eqI)

lemma label_encoder_Inr:
  assumes "label_encoder_fit_transform c = Inr codes"
  shows "\<forall>x \<in> set codes. \<exists>k. x = Integer (int k)"
  using assms
  by (auto simp: label_encoder_fit_transform_def split: option.splits)

lemma encode_column_Inr:
  assumes "encode_column q name enc w = (Inr u, w')"
  shows "\<exists>c codes. map_of (heap w ! q) name = Some c \<and>
     label_encoder_fit_transform c = Inr codes \<and>
     w' = w\<lparr>heap := (heap w)[q := setitem_frame enc codes (heap w ! q)]\<rparr>"
  using assms
  by (auto simp: encode_column_def prims getitem_apply getitem_frame_def
      split: option.splits sum.splits)

lemma encode_Inr:
  assumes "encode q w = (Inr u, w')" and "q < length (heap w)"
  shows "\<exists>c1 c2 c3 k1 k2 k3.
     map_of (heap w ! q) ''species'' = Some c1 \<and>
     map_of (heap w ! q) ''island'' = Some c2 \<and>
     map_of (heap w ! q) ''sex'' = Some c3 \<and>
     label_encoder_fit_transform c1 = Inr k1 \<and>
     label_encoder_fit_transform c2 = Inr k2 \<and>
     label_encoder_fit_transform c3 = Inr k3 \<and>
     heap w' = (heap w)[q :=
        setitem_frame ''sex_encoded'' k3
       (setitem_frame ''island_encoded'' k2
       (setitem_frame ''species_encoded'' k1 (heap w ! q)))]"
proof -
  from assms(1) obtain u1 w1 where 1: "encode_column q ''species'' ''species_encoded'' w = (Inr u1, w1)"
    and r1: "andthen (encode_column q ''island'' ''island_encoded'')
          (\<lambda>_. encode_column q ''sex'' ''sex_encoded'') w1 = (Inr u, w')"
    unfolding encode_def by (rule andthen_InrE)
  from r1 obtain u2 w2 where 2: "encode_column q ''island'' ''island_encoded'' w1 = (Inr u2, w2)"
    and 3: "encode_column q ''sex'' ''sex_encoded'' w2 = (Inr u, w')"
    by (rule andthen_InrE)
  from encode_column_Inr [OF 1] obtain c1 k1 where
    a1: "map_of (heap w ! q) ''species'' = Some c1"
    and b1: "label_encoder_fit_transform c1 = Inr k1"
    and e1: "w1 = w\<lparr>heap := (heap w)[q := setitem_frame ''species_encoded'' k1 (heap w ! q)]\<rparr>"
    by blast
  from encode_column_Inr [OF 2] obtain c2 k2 where
    a2: "map_of (heap w1 ! q) ''island'' = Some c2"
    and b2: "label_encoder_fit_transform c2 = Inr k2"
    and e2: "w2 = w1\<lparr>heap := (heap w1)[q := setitem_frame ''island_encoded'' k2 (heap w1 ! q)]\<rparr>"
    by blast
  from encode_column_Inr [OF 3] obtain c3 k3 where
    a3: "map_of (heap w2 ! q) ''sex'' = Some c3"
    and b3: "label_encoder_fit_transform c3 = Inr k3"
    and e3: "w' = w2\<lparr>heap := (heap w2)[q := setitem_frame ''sex_encoded'' k3 (heap w2 ! q)]\<rparr>"
    by blast
  have a2': "map_of (heap w ! q) ''island'' = Some c2"
    using a2 assms(2) by (simp add: e1 map_of_setitem_frame)
  have a3': "map_of (heap w ! q) ''sex'' = Some c3"
    using a3 assms(2) by (simp add: e1 e2 map_of_setitem_frame)
  have "heap w' = (heap w)[q :=
        setitem_frame ''sex_encoded'' k3
       (setitem_frame ''island_encoded'' k2
       (setitem_frame ''species_encoded'' k1 (heap w ! q)))]"
    using assms(2) by (simp add: e1 e2 e3)
  with a1 a2' a3' b1 b2 b3 show ?thesis by blast
qed

lemma getitem_Inr:
  "getitem q name w = (Inr c, w') \<Longrightarrow> map_of (heap w ! q) name = Some c \<and> w' = w"
  by (auto simp: getitem_apply getitem_frame_def split: option.splits)

lemma getitems_state: "snd (getitems q ns w) = w"
proof (induction ns)
  case Nil
  show ?case by (simp add: prims)
next
  case (Cons n ns)
  then show ?case
    by (cases "getitems q ns w")
       (auto simp: prims getitem_apply getitem_frame_def split: option.splits sum.splits)
qed

lemma getitems_numerical_Inr:
  assumes "getitems q numerical_features w = (Inr cs, w1)"
  shows "\<exists>c1 c2 c3 c4. cs = [c1, c2, c3, c4] \<and> w1 = w \<and>
     map_of (heap w ! q) ''bill_length_mm'' = Some c1 \<and>
     map_of (heap w ! q) ''bill_depth_mm'' = Some c2 \<and>
     map_of (heap w ! q) ''flipper_length_mm'' = Some c3 \<and>
     map_of (heap w ! q) ''body_mass_g'' = Some c4"
  using assms
  by (auto simp: numerical_features_def prims getitem_apply getitem_frame_def
      split: option.splits)

lemma standard_scaler_Inr:
  assumes "standard_scaler_fit_transform A [c1, c2, c3, c4] = Inr scaled"
  shows "\<exists>x1 x2 x3 x4.
     those (map (as_float A) c1) = Some x1 \<and> those (map (as_float A) c2) = Some x2 \<and>
     those (map (as_float A) c3) = Some x3 \<and> those (map (as_float A) c4) = Some x4 \<and>
     scaled = [map cell_of_float64 (standardize A x1), map cell_of_float64 (standardize A x2),
               map cell_of_float64 (standardize A x3), map cell_of_float64 (standardize A x4)]"
  using assms
  by (auto simp: standard_scaler_fit_transform_def split: option.splits if_splits)

lemma scale_features_Inr:
  assumes "scale_features E q w = (Inr u, w')" and "q < length (heap w)"
  shows "\<exists>c1 c2 c3 c4 x1 x2 x3 x4.
     map_of (heap w ! q) ''bill_length_mm'' = Some c1 \<and>
     map_of (heap w ! q) ''bill_depth_mm'' = Some c2 \<and>
     map_of (heap w ! q) ''flipper_length_mm'' = Some c3 \<and>
     map_of (heap w ! q) ''body_mass_g'' = Some c4 \<and>
     those (map (as_float (floats E)) c1) = Some x1 \<and>
     those (map (as_float (floats E)) c2) = Some x2 \<and>
     those (map (as_float (floats E)) c3) = Some x3 \<and>
     those (map (as_float (floats E)) c4) = Some x4 \<and>
     heap w' = (heap w)[q :=
        setitem_frame ''body_mass_g'' (map cell_of_float64 (standardize (floats E) x4))
       (setitem_frame ''flipper_length_mm'' (map cell_of_float64 (standardize (floats E) x3))
       (setitem_frame ''bill_depth_mm'' (map cell_of_float64 (standardize (floats E) x2))
       (setitem_frame ''bill_length_mm'' (map cell_of_float64 (standardize (floats E) x1))
          (heap w ! q))))]"
proof -
  from assms(1) obtain cs w1 where 1: "getitems q numerical_features w = (Inr cs, w1)"
    and r1: "andthen (lift (standard_scaler_fit_transform (floats E) cs))
          (\<lambda>scaled. setitems q numerical_features scaled) w1 = (Inr u, w')"
    unfolding scale_features_def by (rule andthen_InrE)
  from getitems_numerical_Inr [OF 1] obtain c1 c2 c3 c4 where
    cs: "cs = [c1, c2, c3, c4]" and w1: "w1 = w"
    and m: "map_of (heap w ! q) ''bill_length_mm'' = Some c1"
      "map_of (heap w ! q) ''bill_depth_mm'' = Some c2"
      "map_of (heap w ! q) ''flipper_length_mm'' = Some c3"
      "map_of (heap w ! q) ''body_mass_g'' = Some c4"
    by blast
  from r1 obtain scaled w2 where 2: "lift (standard_scaler_fit_transform (floats E) cs) w1 = (Inr scaled, w2)"
    and 3: "setitems q numerical_features scaled w2 = (Inr u, w')"
    by (rule andthen_InrE)
  from 2 have s: "standard_scaler_fit_transform (floats E) [c1, c2, c3, c4] = Inr scaled"
    and w2: "w2 = w"
    by (simp_all add: lift_apply cs w1)
  from standard_scaler_Inr [OF s] obtain x1 x2 x3 x4 where
    x: "those (map (as_float (floats E)) c1) = Some x1"
      "those (map (as_float (floats E)) c2) = Some x2"
      "those (map (as_float (floats E)) c3) = Some x3"
      "those (map (as_float (floats E)) c4) = Some x4"
    and sc: "scaled = [map cell_of_float64 (standardize (floats E) x1),
               map cell_of_float64 (standardize (floats E) x2),
               map cell_of_float64 (standardize (floats E) x3),
               map cell_of_float64 (standardize (floats E) x4)]"
    by blast
  from 3 have "heap w' = (heap w)[q :=
        setitem_frame ''body_mass_g'' (map cell_of_float64 (standardize (floats E) x4))
       (setitem_frame ''flipper_length_mm'' (map cell_of_float64 (standardize (floats E) x3))
       (setitem_frame ''bill_depth_mm'' (map cell_of_float64 (standardize (floats E) x2))
       (setitem_frame ''bill_length_mm'' (map cell_of_float64 (standardize (floats E) x1))
          (heap w ! q))))]"
    using assms(2) by (auto simp: sc w2 numerical_features_def prims)
  with m x show ?thesis by blast
qed

lemma select_features_Inr:
  assumes "select_features q w = (Inr (X, y, p), w')" and "q < length (heap w)"
  shows "p = q \<and> heap w' ! q = heap w ! q"
proof -
  from assms(1) obtain cs w1 where 1: "getitems q feature_columns w = (Inr cs, w1)"
    and 2: "andthen (new_frame (zip feature_columns cs)) (\<lambda>X.
     andthen (getitem q ''species_encoded'') (\<lambda>y.
     andthen (frame_at q) (\<lambda>d.
     andthen (print (Msg_final_shape (shape d))) (\<lambda>_.
     andthen (frame_at X) (\<lambda>x.
     andthen (print (Msg_feature_shape (shape x))) (\<lambda>_.
     andthen (print (Msg_target_distribution y)) (\<lambda>_.
     ret (X, y, q)))))))) w1 = (Inr (X, y, p), w')"
    unfolding select_features_def by (rule andthen_InrE)
  have w1: "w1 = w"
    using getitems_state [of q feature_columns w] 1 by simp
  from 2 show ?thesis
    using assms(2)
    by (auto simp: w1 prims getitem_apply getitem_frame_def nth_append split: option.splits)
qed

lemma getitems_apply:
  "\<forall>n \<in> set ns. map_of (heap w ! q) n \<noteq> None \<Longrightarrow>
   getitems q ns w = (Inr (map (\<lambda>n. the (map_of (heap w ! q) n)) ns), w)"
  by (induction ns) (auto simp: prims getitem_apply getitem_frame_def)

lemma select_features_apply:
  assumes "q < length (heap w)"
    and "\<forall>n \<in> set feature_columns. map_of (heap w ! q) n \<noteq> None"
    and "map_of (heap w ! q) ''species_encoded'' = Some yv"
  shows "\<exists>w'. select_features q w = (Inr (length (heap w), yv, q), w') \<and>
     heap w' ! q = heap w ! q"
  using assms(1,3)
  by (simp add: select_features_def getitems_apply [OF assms(2)] prims getitem_apply
      getitem_frame_def nth_append)

lemma preprocess_apply:
  assumes "df < length (heap w)"
    and "map_of (dropna_frame (heap w ! df)) ''species'' = Some (map Text s1)"
    and "map_of (dropna_frame (heap w ! df)) ''island'' = Some (map Text s2)"
    and "map_of (dropna_frame (heap w ! df)) ''sex'' = Some (map Text s3)"
    and "map_of (dropna_frame (heap w ! df)) ''bill_length_mm'' = Some c1"
    and "map_of (dropna_frame (heap w ! df)) ''bill_depth_mm'' = Some c2"
    and "map_of (dropna_frame (heap w ! df)) ''flipper_length_mm'' = Some c3"
    and "map_of (dropna_frame (heap w ! df)) ''body_mass_g'' = Some c4"
    and "those (map (as_float (floats E)) c1) = Some x1"
    and "those (map (as_float (floats E)) c2) = Some x2"
    and "those (map (as_float (floats E)) c3) = Some x3"
    and "those (map (as_float (floats E)) c4) = Some x4"
    and "x1 \<noteq> []"
    and "\<not> list_ex is_infinite x1" and "\<not> list_ex is_infinite x2"
    and "\<not> list_ex is_infinite x3" and "\<not> list_ex is_infinite x4"
  shows "\<exists>X y w'. preprocess_penguins_data E df w = (Inr (X, y, Suc (length (heap w))), w') \<and>
     heap w' ! Suc (length (heap w)) =
        setitem_frame ''body_mass_g'' (map cell_of_float64 (standardize (floats E) x4))
       (setitem_frame ''flipper_length_mm'' (map cell_of_float64 (standardize (floats E) x3))
       (setitem_frame ''bill_depth_mm'' (map cell_of_float64 (standardize (floats E) x2))
       (setitem_frame ''bill_length_mm'' (map cell_of_float64 (standardize (floats E) x1))
       (setitem_frame ''sex_encoded'' (map (\<lambda>n. Integer (int n)) (fit_transform s3))
       (setitem_frame ''island_encoded'' (map (\<lambda>n. Integer (int n)) (fit_transform s2))
       (setitem_frame ''species_encoded'' (map (\<lambda>n. Integer (int n)) (fit_transform s1))
          (dropna_frame (heap w ! df))))))))"
proof -
  let ?inp = "heap w ! df"
  let ?cln = "dropna_frame ?inp"
  let ?q = "Suc (length (heap w))"
  let ?wa = "w\<lparr>heap := heap w @ [?inp, ?cln],
        stdout := stdout w @ [Msg_missing_before (isnull_sum ?inp), Msg_missing_after 0]\<rparr>"
  let ?enc = "setitem_frame ''sex_encoded'' (map (\<lambda>n. Integer (int n)) (fit_transform s3))
       (setitem_frame ''island_encoded'' (map (\<lambda>n. Integer (int n)) (fit_transform s2))
       (setitem_frame ''species_encoded'' (map (\<lambda>n. Integer (int n)) (fit_transform s1)) ?cln))"
  let ?fin = "setitem_frame ''body_mass_g'' (map cell_of_float64 (standardize (floats E) x4))
       (setitem_frame ''flipper_length_mm'' (map cell_of_float64 (standardize (floats E) x3))
       (setitem_frame ''bill_depth_mm'' (map cell_of_float64 (standardize (floats E) x2))
       (setitem_frame ''bill_length_mm'' (map cell_of_float64 (standardize (floats E) x1))
          ?enc)))"
  let ?wb = "?wa\<lparr>heap := (heap ?wa)[?q := ?enc]\<rparr>"
  let ?wc = "?wb\<lparr>heap := (heap ?wb)[?q := ?fin]\<rparr>"
  have q: "?q < length (heap ?wa)" and cln: "heap ?wa ! ?q = ?cln"
    by (simp_all add: nth_append)
  have pre: "preprocess_penguins_data E df w =
      andthen (encode ?q) (\<lambda>_. andthen (scale_features E ?q) (\<lambda>_. select_features ?q)) ?wa"
    by (simp add: preprocess_penguins_data_def andthen_apply clean_apply [OF assms(1)])
  have 1: "encode ?q ?wa = (Inr (), ?wb)"
    using encode_apply [OF q, of s1 s2 s3] assms(2,3,4) unfolding cln by simp
  have qb: "?q < length (heap ?wb)" and enc: "heap ?wb ! ?q = ?enc"
    by simp_all
  have 2: "scale_features E ?q ?wb = (Inr (), ?wc)"
    using scale_features_apply [OF qb, of c1 c2 c3 c4 E x1 x2 x3 x4] assms(5-17)
    unfolding enc by (simp add: map_of_setitem_frame)
  have qc: "?q < length (heap ?wc)" and fin: "heap ?wc ! ?q = ?fin"
    by simp_all
  have feat: "\<forall>n \<in> set feature_columns. map_of (heap ?wc ! ?q) n \<noteq> None"
    unfolding fin using assms(5-8)
    by (simp add: feature_columns_def numerical_features_def map_of_setitem_frame)
  have tgt: "map_of (heap ?wc ! ?q) ''species_encoded'' =
      Some (map (\<lambda>n. Integer (int n)) (fit_transform s1))"
    unfolding fin by (simp add: map_of_setitem_frame)
  from select_features_apply [OF qc feat tgt] obtain w' where
    3: "select_features ?q ?wc =
        (Inr (length (heap ?wc), map (\<lambda>n. Integer (int n)) (fit_transform s1), ?q), w')"
    and 4: "heap w' ! ?q = heap ?wc ! ?q"
    by blast
  have "preprocess_penguins_data E df w =
      (Inr (length (heap ?wc), map (\<lambda>n. Integer (int n)) (fit_transform s1), ?q), w')"
    unfolding pre
    by (simp only: andthen_Inr [of "encode ?q" ?wa, OF 1]
        andthen_Inr [of "scale_features E ?q" ?wb, OF 2] 3)
  moreover have "heap w' ! ?q = ?fin"
    unfolding 4 fin by (rule refl)
  ultimately show ?thesis by blast
qed

lemma preprocess_penguins_example:
  "\<exists>X y w'. preprocess_penguins_data example_env 0 (world_of penguins_example) =
     (Inr (X, y, 2), w')"
proof -
  have "\<exists>X y w'. preprocess_penguins_data example_env 0 (world_of penguins_example) =
       (Inr (X, y, Suc (length (heap (world_of penguins_example)))), w') \<and>
     heap w' ! Suc (length (heap (world_of penguins_example))) =
        setitem_frame ''body_mass_g''
          (map cell_of_float64 (standardize (floats example_env) [Finite 4002, Finite 4000]))
       (setitem_frame ''flipper_length_mm''
          (map cell_of_float64 (standardize (floats example_env) [Finite 212, Finite 210]))
       (setitem_frame ''bill_depth_mm''
          (map cell_of_float64 (standardize (floats example_env) [Finite 15, Finite 19]))
       (setitem_frame ''bill_length_mm''
          (map cell_of_float64 (standardize (floats example_env) [Finite 41, Finite 39]))
       (setitem_frame ''sex_encoded'' (map (\<lambda>n. Integer (int n)) (fit_transform [''MALE'', ''FEMALE'']))
       (setitem_frame ''island_encoded''
          (map (\<lambda>n. Integer (int n)) (fit_transform [''Biscoe'', ''Torgersen'']))
       (setitem_frame ''species_encoded''
          (map (\<lambda>n. Integer (int n)) (fit_transform [''Gentoo'', ''Adelie'']))
          (dropna_frame (heap (world_of penguins_example) ! 0))))))))"
    by (rule preprocess_apply [where ?c1.0 = "[Float 41, Float 39]"
          and ?c2.0 = "[Float 15, Float 19]" and ?c3.0 = "[Integer 212, Integer 210]"
          and ?c4.0 = "[Integer 4002, Integer 4000]"])
       (simp_all add: world_of_def dropna_penguins_example floats_example_env
          float_of_int_exact_ops)
  then show ?thesis
    by (auto simp: world_of_def numeral_2_eq_2)
qed

lemma wf_encoded_example: "wf encoded_example"
  by (simp add: wf_def encoded_example_def columns_def nrows_def)

lemma dropna_encoded_example: "dropna_frame encoded_example = encoded_example"
  by (rule dropna_frame_no_missing [OF wf_encoded_example])
     (simp add: isnull_sum_def encoded_example_def)

text \<open>
  C7, as amended. For every input table that has no column named \<^verbatim>\<open>species_encoded\<close>,
  \<^verbatim>\<open>island_encoded\<close> or \<^verbatim>\<open>sex_encoded\<close>, when \<^verbatim>\<open>preprocess_penguins_data\<close> returns, the
  processed table has the columns of the input, in their order, followed by the three new
  columns \<^verbatim>\<open>species_encoded\<close>, \<^verbatim>\<open>island_encoded\<close> and \<^verbatim>\<open>sex_encoded\<close>, which hold integers;
  the columns species, island and sex, and every other column of the input apart from the
  four numeric columns, hold the cells of the cleaned input; and each of the four numeric
  columns holds the standardized values of that column of the cleaned input.
\<close>

theorem preprocess_frame_effect:
  assumes "df < length (heap w)"
    and "\<forall>n \<in> set [''species_encoded'', ''island_encoded'', ''sex_encoded''].
           n \<notin> set (columns (heap w ! df))"
    and "preprocess_penguins_data E df w = (Inr (X, y, p), w')"
  shows "columns (heap w' ! p) =
       columns (heap w ! df) @ [''species_encoded'', ''island_encoded'', ''sex_encoded''] \<and>
     (\<forall>n \<in> set [''species'', ''island'', ''sex'']. \<exists>c.
        map_of (dropna_frame (heap w ! df)) n = Some c \<and> map_of (heap w' ! p) n = Some c) \<and>
     (\<forall>n \<in> set (columns (heap w ! df)). n \<notin> set numerical_features \<longrightarrow>
        map_of (heap w' ! p) n = map_of (dropna_frame (heap w ! df)) n) \<and>
     (\<forall>n \<in> set [''species_encoded'', ''island_encoded'', ''sex_encoded'']. \<exists>c.
        map_of (heap w' ! p) n = Some c \<and> (\<forall>x \<in> set c. \<exists>k. x = Integer (int k))) \<and>
     (\<forall>n \<in> set numerical_features. \<exists>c xs.
        map_of (dropna_frame (heap w ! df)) n = Some c \<and>
        those (map (as_float (floats E)) c) = Some xs \<and>
        map_of (heap w' ! p) n = Some (map cell_of_float64 (standardize (floats E) xs)))"
proof -
  let ?inp = "heap w ! df"
  let ?cln = "dropna_frame ?inp"
  let ?q = "Suc (length (heap w))"
  let ?w1 = "w\<lparr>heap := heap w @ [?inp, ?cln],
        stdout := stdout w @ [Msg_missing_before (isnull_sum ?inp), Msg_missing_after 0]\<rparr>"
  have q: "?q < length (heap ?w1)" and d0: "heap ?w1 ! ?q = ?cln"
    by (simp_all add: nth_append)
  have "preprocess_penguins_data E df w =
      andthen (encode ?q) (\<lambda>_. andthen (scale_features E ?q) (\<lambda>_. select_features ?q)) ?w1"
    by (simp add: preprocess_penguins_data_def andthen_apply clean_apply [OF assms(1)])
  with assms(3) have
    "andthen (encode ?q) (\<lambda>_. andthen (scale_features E ?q) (\<lambda>_. select_features ?q)) ?w1 =
      (Inr (X, y, p), w')"
    by simp
  then obtain u2 w2 where 1: "encode ?q ?w1 = (Inr u2, w2)"
    and r: "andthen (scale_features E ?q) (\<lambda>_. select_features ?q) w2 = (Inr (X, y, p), w')"
    by (rule andthen_InrE)
  from r obtain u3 w3 where 2: "scale_features E ?q w2 = (Inr u3, w3)"
    and 3: "select_features ?q w3 = (Inr (X, y, p), w')"
    by (rule andthen_InrE)
  from encode_Inr [OF 1 q] obtain c1 c2 c3 k1 k2 k3 where
    cat: "map_of ?cln ''species'' = Some c1" "map_of ?cln ''island'' = Some c2"
      "map_of ?cln ''sex'' = Some c3"
    and codes: "label_encoder_fit_transform c1 = Inr k1" "label_encoder_fit_transform c2 = Inr k2"
      "label_encoder_fit_transform c3 = Inr k3"
    and h2: "heap w2 = (heap ?w1)[?q :=
        setitem_frame ''sex_encoded'' k3
       (setitem_frame ''island_encoded'' k2
       (setitem_frame ''species_encoded'' k1 ?cln))]"
    unfolding d0 by blast
  let ?enc = "setitem_frame ''sex_encoded'' k3
       (setitem_frame ''island_encoded'' k2
       (setitem_frame ''species_encoded'' k1 ?cln))"
  have q2: "?q < length (heap w2)" and d2: "heap w2 ! ?q = ?enc"
    by (simp_all add: h2)
  from scale_features_Inr [OF 2 q2] obtain n1 n2 n3 n4 x1 x2 x3 x4 where
    num2: "map_of ?enc ''bill_length_mm'' = Some n1" "map_of ?enc ''bill_depth_mm'' = Some n2"
      "map_of ?enc ''flipper_length_mm'' = Some n3" "map_of ?enc ''body_mass_g'' = Some n4"
    and x: "those (map (as_float (floats E)) n1) = Some x1"
      "those (map (as_float (floats E)) n2) = Some x2"
      "those (map (as_float (floats E)) n3) = Some x3"
      "those (map (as_float (floats E)) n4) = Some x4"
    and h3: "heap w3 = (heap w2)[?q :=
        setitem_frame ''body_mass_g'' (map cell_of_float64 (standardize (floats E) x4))
       (setitem_frame ''flipper_length_mm'' (map cell_of_float64 (standardize (floats E) x3))
       (setitem_frame ''bill_depth_mm'' (map cell_of_float64 (standardize (floats E) x2))
       (setitem_frame ''bill_length_mm'' (map cell_of_float64 (standardize (floats E) x1))
          ?enc)))]"
    unfolding d2 by blast
  let ?fin = "setitem_frame ''body_mass_g'' (map cell_of_float64 (standardize (floats E) x4))
       (setitem_frame ''flipper_length_mm'' (map cell_of_float64 (standardize (floats E) x3))
       (setitem_frame ''bill_depth_mm'' (map cell_of_float64 (standardize (floats E) x2))
       (setitem_frame ''bill_length_mm'' (map cell_of_float64 (standardize (floats E) x1))
          ?enc)))"
  have q3: "?q < length (heap w3)" and d3: "heap w3 ! ?q = ?fin"
    using q2 by (simp_all add: h3)
  from select_features_Inr [OF 3 q3] have p: "p = ?q" and fin: "heap w' ! p = ?fin"
    by (simp_all add: d3)
  have num: "map_of ?cln ''bill_length_mm'' = Some n1" "map_of ?cln ''bill_depth_mm'' = Some n2"
      "map_of ?cln ''flipper_length_mm'' = Some n3" "map_of ?cln ''body_mass_g'' = Some n4"
    using num2 by (simp_all add: map_of_setitem_frame)
  have fresh: "''species_encoded'' \<notin> set (columns ?cln)" "''island_encoded'' \<notin> set (columns ?cln)"
      "''sex_encoded'' \<notin> set (columns ?cln)"
    using assms(2) by (simp_all add: columns_dropna_frame)
  have incol: "''bill_length_mm'' \<in> set (columns ?cln)" "''bill_depth_mm'' \<in> set (columns ?cln)"
      "''flipper_length_mm'' \<in> set (columns ?cln)" "''body_mass_g'' \<in> set (columns ?cln)"
    using num by (simp_all add: map_of_in_columns)
  have A: "columns ?fin =
       columns ?inp @ [''species_encoded'', ''island_encoded'', ''sex_encoded'']"
    using fresh incol by (simp add: columns_setitem_frame columns_dropna_frame)
  have B: "\<forall>n \<in> set [''species'', ''island'', ''sex'']. \<exists>c.
        map_of ?cln n = Some c \<and> map_of ?fin n = Some c"
    using cat by (simp add: map_of_setitem_frame)
  have C: "\<forall>n \<in> set (columns ?inp). n \<notin> set numerical_features \<longrightarrow>
        map_of ?fin n = map_of ?cln n"
    using assms(2) by (auto simp: map_of_setitem_frame numerical_features_def)
  have D: "\<forall>n \<in> set [''species_encoded'', ''island_encoded'', ''sex_encoded'']. \<exists>c.
        map_of ?fin n = Some c \<and> (\<forall>x \<in> set c. \<exists>k. x = Integer (int k))"
    using label_encoder_Inr [OF codes(1)] label_encoder_Inr [OF codes(2)]
      label_encoder_Inr [OF codes(3)]
    by (simp add: map_of_setitem_frame)
  have E: "\<forall>n \<in> set numerical_features. \<exists>c xs.
        map_of ?cln n = Some c \<and>
        those (map (as_float (floats E)) c) = Some xs \<and>
        map_of ?fin n = Some (map cell_of_float64 (standardize (floats E) xs))"
    using num x by (simp add: map_of_setitem_frame numerical_features_def)
  from A B C D E show ?thesis
    unfolding fin by blast
qed

theorem preprocess_frame_effect_witness:
  "\<exists>X y p w'. preprocess_penguins_data example_env 0 (world_of penguins_example) =
       (Inr (X, y, p), w') \<and>
     columns (heap w' ! p) =
       [''species'', ''island'', ''bill_length_mm'', ''bill_depth_mm'', ''flipper_length_mm'',
        ''body_mass_g'', ''sex'', ''species_encoded'', ''island_encoded'', ''sex_encoded''] \<and>
     map_of (heap w' ! p) ''species'' = Some [Text ''Gentoo'', Text ''Adelie''] \<and>
     map_of (heap w' ! p) ''island'' = Some [Text ''Biscoe'', Text ''Torgersen''] \<and>
     map_of (heap w' ! p) ''sex'' = Some [Text ''MALE'', Text ''FEMALE'']"
proof -
  from preprocess_penguins_example obtain X y w' where
    run: "preprocess_penguins_data example_env 0 (world_of penguins_example) = (Inr (X, y, 2), w')"
    by blast
  have "0 < length (heap (world_of penguins_example))"
    and "\<forall>n \<in> set [''species_encoded'', ''island_encoded'', ''sex_encoded''].
           n \<notin> set (columns (heap (world_of penguins_example) ! 0))"
    by (simp_all add: world_of_def columns_def penguins_example_def)
  from preprocess_frame_effect [OF this run]
  have "columns (heap w' ! 2) =
       [''species'', ''island'', ''bill_length_mm'', ''bill_depth_mm'', ''flipper_length_mm'',
        ''body_mass_g'', ''sex'', ''species_encoded'', ''island_encoded'', ''sex_encoded''] \<and>
     map_of (heap w' ! 2) ''species'' = Some [Text ''Gentoo'', Text ''Adelie''] \<and>
     map_of (heap w' ! 2) ''island'' = Some [Text ''Biscoe'', Text ''Torgersen''] \<and>
     map_of (heap w' ! 2) ''sex'' = Some [Text ''MALE'', Text ''FEMALE'']"
    by (simp add: world_of_def dropna_penguins_example)
       (simp add: columns_def penguins_example_def)
  with run show ?thesis by blast
qed

text \<open>
  C7 as stated fails on a table that already has one of the three code columns: in the
  example the column \<^verbatim>\<open>sex_encoded\<close> of the input is overwritten where it stands, and only
  two columns are appended.
\<close>

theorem preprocess_frame_effect_counterexample:
  "\<exists>X y p w'. preprocess_penguins_data example_env 0 (world_of encoded_example) =
       (Inr (X, y, p), w') \<and>
     columns (heap w' ! p) = columns encoded_example @ [''species_encoded'', ''island_encoded''] \<and>
     map_of encoded_example ''sex_encoded'' = Some [Integer 7, Integer 7] \<and>
     map_of (heap w' ! p) ''sex_encoded'' = Some [Integer 0, Integer 1]"
proof -
  have "\<exists>X y w'. preprocess_penguins_data example_env 0 (world_of encoded_example) =
       (Inr (X, y, Suc (length (heap (world_of encoded_example)))), w') \<and>
     heap w' ! Suc (length (heap (world_of encoded_example))) =
        setitem_frame ''body_mass_g''
          (map cell_of_float64 (standardize (floats example_env) [Finite 4000, Finite 4002]))
       (setitem_frame ''flipper_length_mm''
          (map cell_of_float64 (standardize (floats example_env) [Finite 210, Finite 212]))
       (setitem_frame ''bill_depth_mm''
          (map cell_of_float64 (standardize (floats example_env) [Finite 15, Finite 19]))
       (setitem_frame ''bill_length_mm''
          (map cell_of_float64 (standardize (floats example_env) [Finite 40, Finite 40]))
       (setitem_frame ''sex_encoded'' (map (\<lambda>n. Integer (int n)) (fit_transform [''FEMALE'', ''MALE'']))
       (setitem_frame ''island_encoded''
          (map (\<lambda>n. Integer (int n)) (fit_transform [''Dream'', ''Biscoe'']))
       (setitem_frame ''species_encoded''
          (map (\<lambda>n. Integer (int n)) (fit_transform [''Adelie'', ''Gentoo'']))
          (dropna_frame (heap (world_of encoded_example) ! 0))))))))"
    by (rule preprocess_apply [where ?c1.0 = "[Float 40, Float 40]"
          and ?c2.0 = "[Float 15, Float 19]" and ?c3.0 = "[Integer 210, Integer 212]"
          and ?c4.0 = "[Integer 4000, Integer 4002]"])
       (simp_all add: world_of_def dropna_encoded_example floats_example_env
          float_of_int_exact_ops, simp_all add: encoded_example_def)
  then obtain X y w' where
    run: "preprocess_penguins_data example_env 0 (world_of encoded_example) = (Inr (X, y, 2), w')"
    and fin: "heap w' ! 2 =
        setitem_frame ''body_mass_g''
          (map cell_of_float64 (standardize (floats example_env) [Finite 4000, Finite 4002]))
       (setitem_frame ''flipper_length_mm''
          (map cell_of_float64 (standardize (floats example_env) [Finite 210, Finite 212]))
       (setitem_frame ''bill_depth_mm''
          (map cell_of_float64 (standardize (floats example_env) [Finite 15, Finite 19]))
       (setitem_frame ''bill_length_mm''
          (map cell_of_float64 (standardize (floats example_env) [Finite 40, Finite 40]))
       (setitem_frame ''sex_encoded'' (map (\<lambda>n. Integer (int n)) (fit_transform [''FEMALE'', ''MALE'']))
       (setitem_frame ''island_encoded''
          (map (\<lambda>n. Integer (int n)) (fit_transform [''Dream'', ''Biscoe'']))
       (setitem_frame ''species_encoded''
          (map (\<lambda>n. Integer (int n)) (fit_transform [''Adelie'', ''Gentoo'']))
          encoded_example))))))"
    by (auto simp: world_of_def numeral_2_eq_2 dropna_encoded_example)
  have cols: "columns (heap w' ! 2) =
      columns encoded_example @ [''species_encoded'', ''island_encoded'']"
    unfolding fin
    by (simp add: columns_setitem_frame) (simp add: columns_def encoded_example_def)
  have old: "map_of encoded_example ''sex_encoded'' = Some [Integer 7, Integer 7]"
    by (simp add: encoded_example_def)
  have new: "map_of (heap w' ! 2) ''sex_encoded'' = Some [Integer 0, Integer 1]"
    unfolding fin
    by (simp add: map_of_setitem_frame fit_transform_def label_classes_def)
  from run cols old new show ?thesis by blast
qed

subsection \<open>Loading and the orchestrator\<close>

lemma load_data_absent:
  "files w path = None \<Longrightarrow>
   load_data E path w = (Inr None, w\<lparr>stdout := stdout w @ [Msg_not_found path]\<rparr>)"
  by (simp add: load_data_def prims)

lemma load_data_unreadable:
  "files w path = Some f \<Longrightarrow> read_csv E f = Inl e \<Longrightarrow>
   load_data E path w = (Inr None, w\<lparr>stdout := stdout w @ [Msg_load_error e]\<rparr>)"
  by (simp add: load_data_def prims)

lemma load_data_readable:
  "files w path = Some f \<Longrightarrow> read_csv E f = Inr d \<Longrightarrow>
   load_data E path w =
     (Inr (Some (length (heap w))),
      w\<lparr>heap := heap w @ [d], stdout := stdout w @ [Msg_loaded (shape d)]\<rparr>)"
  by (simp add: load_data_def prims)

lemma load_data_cases:
  obtains "files w path = None"
  | f e where "files w path = Some f" "read_csv E f = Inl e"
  | f d where "files w path = Some f" "read_csv E f = Inr d"
  by (cases "files w path"; cases "read_csv E (the (files w path))") auto

lemma run_pipeline_load:
  "run_pipeline E path w =
     (case load_data E path (w\<lparr>stdout := stdout w @ [Msg_start, Msg_step_load]\<rparr>) of
        (Inl e, w1) \<Rightarrow> (Inl e, w1)
      | (Inr None, w1) \<Rightarrow> (Inr (), w1)
      | (Inr (Some df), w1) \<Rightarrow>
          andthen (print Msg_step_preprocess) (\<lambda>_.
          andthen (preprocess_penguins_data E df) (\<lambda>(X, y, df_processed).
          andthen (print Msg_step_save) (\<lambda>_.
          andthen (save_processed_data E df_processed processed_data_path) (\<lambda>_.
          andthen (print Msg_completed) (\<lambda>_.
          andthen (print (Msg_available processed_data_path)) (\<lambda>_.
          andthen (frame_at X) (\<lambda>x.
          andthen (print (Msg_features_shape (shape x))) (\<lambda>_.
          print (Msg_target_shape (length y)))))))))) w1)"
  by (simp add: run_pipeline_def andthen_apply print_apply ret_apply
      split: prod.splits sum.splits option.splits)

lemma find_first:
  "(\<forall>q \<in> set pre. \<not> P q) \<Longrightarrow> P p \<Longrightarrow> find P (pre @ p # post) = Some p"
  by (induction pre) simp_all

lemma find_none: "(\<forall>q \<in> set xs. \<not> P q) \<Longrightarrow> find P xs = None"
  by (induction xs) simp_all

text \<open>
  C5. For every path, \<^verbatim>\<open>load_data\<close> returns and raises nothing: where nothing is at
  the path it prints the not-found message and returns \<^verbatim>\<open>None\<close>, where reading raises
  another error it prints that error's message and returns \<^verbatim>\<open>None\<close>, and the two
  messages differ. Whenever \<^verbatim>\<open>load_data\<close> returns \<^verbatim>\<open>None\<close> in \<^verbatim>\<open>main\<close>, the run
  ends in the world \<^verbatim>\<open>load_data\<close> left: the files and the tables are unchanged and
  nothing is printed after the message of the failure, so neither the preprocessing nor
  the save has run.
\<close>

theorem load_failure_stops_pipeline:
  "(\<exists>r w'. load_data E path w = (Inr r, w')) \<and>
   (files w path = None \<longrightarrow>
      load_data E path w = (Inr None, w\<lparr>stdout := stdout w @ [Msg_not_found path]\<rparr>)) \<and>
   (\<forall>f e. files w path = Some f \<and> read_csv E f = Inl e \<longrightarrow>
      load_data E path w = (Inr None, w\<lparr>stdout := stdout w @ [Msg_load_error e]\<rparr>)) \<and>
   Msg_not_found path \<noteq> Msg_load_error e' \<and>
   (\<forall>w1. resolve_raw_data_path w = Some path \<and>
      load_data E path (w\<lparr>stdout := stdout w @ [Msg_start, Msg_step_load]\<rparr>) = (Inr None, w1) \<longrightarrow>
      main E w = (Inr (), w1) \<and> files w1 = files w \<and> heap w1 = heap w \<and>
      (\<exists>m. stdout w1 = stdout w @ [Msg_start, Msg_step_load, m] \<and>
           (m = Msg_not_found path \<or> (\<exists>e. m = Msg_load_error e))))"
proof (intro conjI allI impI)
  show "\<exists>r w'. load_data E path w = (Inr r, w')"
    by (rule load_data_cases [where w = w and path = path and E = E])
       (simp_all add: load_data_absent load_data_unreadable load_data_readable)
next
  fix w1
  let ?w = "w\<lparr>stdout := stdout w @ [Msg_start, Msg_step_load]\<rparr>"
  assume a: "resolve_raw_data_path w = Some path \<and> load_data E path ?w = (Inr None, w1)"
  then show "main E w = (Inr (), w1)"
    by (simp add: main_def run_pipeline_load)
  have "files w1 = files w \<and> heap w1 = heap w \<and>
      (\<exists>m. stdout w1 = stdout w @ [Msg_start, Msg_step_load, m] \<and>
           (m = Msg_not_found path \<or> (\<exists>e. m = Msg_load_error e)))"
    using a
    by (cases rule: load_data_cases [where w = ?w and path = path and E = E])
       (auto simp: load_data_absent load_data_unreadable load_data_readable)
  then show "files w1 = files w" "heap w1 = heap w"
    "\<exists>m. stdout w1 = stdout w @ [Msg_start, Msg_step_load, m] \<and>
           (m = Msg_not_found path \<or> (\<exists>e. m = Msg_load_error e))"
    by blast+
qed (simp_all add: load_data_absent load_data_unreadable)

theorem load_failure_stops_pipeline_witness:
  "main example_env \<lparr>files = [''../penguins.csv'' \<mapsto> None], heap = [], stdout = []\<rparr> =
     (Inr (), \<lparr>files = [''../penguins.csv'' \<mapsto> None], heap = [],
        stdout = [Msg_start, Msg_step_load, Msg_load_error ''no columns to parse'']\<rparr>)"
proof -
  let ?w = "\<lparr>files = [''../penguins.csv'' \<mapsto> None :: dataframe option], heap = [], stdout = []\<rparr>"
  let ?w1 = "\<lparr>files = [''../penguins.csv'' \<mapsto> None :: dataframe option], heap = [],
        stdout = [Msg_start, Msg_step_load, Msg_load_error ''no columns to parse'']\<rparr>"
  have 1: "resolve_raw_data_path ?w = Some ''../penguins.csv''"
    by (simp add: resolve_raw_data_path_def path_exists_def raw_data_path_def
        alternative_paths_def)
  have 2: "load_data example_env ''../penguins.csv''
      (?w\<lparr>stdout := stdout ?w @ [Msg_start, Msg_step_load]\<rparr>) = (Inr None, ?w1)"
    by (simp add: load_data_def prims example_env_def)
  from load_failure_stops_pipeline [of example_env "''../penguins.csv''" ?w] 1 2
  show ?thesis by blast
qed

text \<open>
  C6. If the primary input path exists, \<^verbatim>\<open>main\<close> runs the stages on it. If it is
  absent, \<^verbatim>\<open>main\<close> runs them on the first of the three alternative paths, in their
  order, that exists; and if none of them exists it only prints its message and returns:
  the files (so no output file is written) and the tables are unchanged.
\<close>

theorem main_resolves_input_path:
  "(path_exists w raw_data_path \<longrightarrow> main E w = run_pipeline E raw_data_path w) \<and>
   (\<not> path_exists w raw_data_path \<longrightarrow>
      (\<forall>pre p post. alternative_paths = pre @ p # post \<and>
           (\<forall>q \<in> set pre. \<not> path_exists w q) \<and> path_exists w p \<longrightarrow>
         main E w = run_pipeline E p w) \<and>
      ((\<forall>q \<in> set alternative_paths. \<not> path_exists w q) \<longrightarrow>
         main E w = (Inr (), w\<lparr>stdout := stdout w @ [Msg_raw_not_found]\<rparr>)))"
proof (intro conjI impI allI)
  assume "path_exists w raw_data_path"
  then show "main E w = run_pipeline E raw_data_path w"
    by (simp add: main_def resolve_raw_data_path_def)
next
  fix pre p post
  assume absent: "\<not> path_exists w raw_data_path"
    and a: "alternative_paths = pre @ p # post \<and>
           (\<forall>q \<in> set pre. \<not> path_exists w q) \<and> path_exists w p"
  from a have "find (path_exists w) (pre @ p # post) = Some p"
    by (intro find_first) blast+
  with a have "find (path_exists w) alternative_paths = Some p"
    by metis
  with absent show "main E w = run_pipeline E p w"
    by (simp add: main_def resolve_raw_data_path_def)
next
  assume "\<not> path_exists w raw_data_path"
    and "\<forall>q \<in> set alternative_paths. \<not> path_exists w q"
  then show "main E w = (Inr (), w\<lparr>stdout := stdout w @ [Msg_raw_not_found]\<rparr>)"
    by (simp add: main_def resolve_raw_data_path_def find_none print_apply)
qed

theorem main_resolves_input_path_witness:
  "main example_env \<lparr>files = [''../penguins.csv'' \<mapsto> None], heap = [], stdout = []\<rparr> =
     run_pipeline example_env ''../penguins.csv''
       \<lparr>files = [''../penguins.csv'' \<mapsto> None], heap = [], stdout = []\<rparr> \<and>
   main example_env \<lparr>files = Map.empty, heap = [], stdout = []\<rparr> =
     (Inr (), \<lparr>files = Map.empty, heap = [], stdout = [Msg_raw_not_found]\<rparr>)"
proof
  let ?w = "\<lparr>files = [''../penguins.csv'' \<mapsto> None :: dataframe option], heap = [], stdout = []\<rparr>"
  have "\<not> path_exists ?w raw_data_path"
    and "alternative_paths = [''penguins.csv''] @ ''../penguins.csv'' # [''penguins_raw.csv'']"
    and "\<forall>q \<in> set [''penguins.csv'']. \<not> path_exists ?w q"
    and "path_exists ?w ''../penguins.csv''"
    by (simp_all add: path_exists_def raw_data_path_def alternative_paths_def)
  with main_resolves_input_path [of ?w example_env]
  show "main example_env ?w = run_pipeline example_env ''../penguins.csv'' ?w"
    by blast
next
  let ?w = "\<lparr>files = Map.empty :: string \<rightharpoonup> dataframe option, heap = [], stdout = []\<rparr>"
  have "\<not> path_exists ?w raw_data_path" and "\<forall>q \<in> set alternative_paths. \<not> path_exists ?w q"
    by (simp_all add: path_exists_def)
  with main_resolves_input_path [of ?w example_env]
  show "main example_env ?w = (Inr (), \<lparr>files = Map.empty, heap = [], stdout = [Msg_raw_not_found]\<rparr>)"
    by simp
qed

end
